theory Spec2Isabelle
  imports Main
begin

section \<open>Python values\<close>

text \<open>
  The thread module of fbchat passes untyped values around: identifiers, payload
  entries and the nested mappings that the remote service answers with. They are
  modelled by one datatype of Python values. A string is a list of characters, each
  standing for one code point below 256; a dictionary is the list of its entries in
  insertion order. Floating point numbers are not part of the value model.
\<close>

datatype pyval =
    PNone
  | PBool bool
  | PInt int
  | PStr string
  | PList "pyval list"
  | PDict "(pyval \<times> pyval) list"

text \<open>The exceptions that the module raises itself or that its expressions can raise.
  An exception raised inside the session collaborator is kept apart from the module's
  own: \<open>SessionRaised\<close> carries its description.\<close>

datatype error =
    ValueError
  | NotImplementedError
  | KeyError
  | IndexError
  | TypeError
  | AttributeError
  | FBchatException
  | FBchatFacebookError pyval pyval
  | SessionRaised string

text \<open>Truth value testing, as \<^verbatim>\<open>if x\<close> and \<^verbatim>\<open>not x\<close> do it.\<close>

fun truthy :: "pyval \<Rightarrow> bool" where
  "truthy PNone = False"
| "truthy (PBool b) = b"
| "truthy (PInt n) = (n \<noteq> 0)"
| "truthy (PStr s) = (s \<noteq> [])"
| "truthy (PList xs) = (xs \<noteq> [])"
| "truthy (PDict kvs) = (kvs \<noteq> [])"

text \<open>Python's \<^verbatim>\<open>==\<close>: a boolean is the integer 0 or 1, lists compare element by
  element, dictionaries compare as sets of entries.\<close>

fun py_eq :: "pyval \<Rightarrow> pyval \<Rightarrow> bool" where
  "py_eq PNone PNone = True"
| "py_eq (PBool a) (PBool b) = (a = b)"
| "py_eq (PBool a) (PInt n) = ((if a then 1 else 0) = n)"
| "py_eq (PInt n) (PBool b) = (n = (if b then 1 else 0))"
| "py_eq (PInt m) (PInt n) = (m = n)"
| "py_eq (PStr s) (PStr t) = (s = t)"
| "py_eq (PList xs) (PList ys) = list_all2 py_eq xs ys"
| "py_eq (PDict a) (PDict b) =
     (length a = length b \<and>
      list_all (\<lambda>(k, v). list_ex (\<lambda>(k', v'). py_eq k k' \<and> py_eq v v') b) a)"
| "py_eq _ _ = False"

text \<open>Only values that hash can be keys of a dictionary.\<close>

fun hashable :: "pyval \<Rightarrow> bool" where
  "hashable (PList _) = False"
| "hashable (PDict _) = False"
| "hashable _ = True"

fun dict_lookup :: "pyval \<Rightarrow> (pyval \<times> pyval) list \<Rightarrow> pyval option" where
  "dict_lookup k [] = None"
| "dict_lookup k ((k', v) # kvs) = (if py_eq k k' then Some v else dict_lookup k kvs)"

text \<open>\<^verbatim>\<open>d[k] = v\<close> on the entries of a dictionary: the value of an existing key is
  replaced in place, a new key is appended.\<close>

fun dict_store :: "pyval \<Rightarrow> pyval \<Rightarrow> (pyval \<times> pyval) list \<Rightarrow> (pyval \<times> pyval) list" where
  "dict_store k v [] = [(k, v)]"
| "dict_store k v ((k', v') # kvs) =
     (if py_eq k k' then (k', v) # kvs else (k', v') # dict_store k v kvs)"


text \<open>An integer index into a sequence of length \<open>n\<close>; a negative index counts from
  the end.\<close>

definition seq_index :: "nat \<Rightarrow> int \<Rightarrow> error + nat" where
  "seq_index n i =
     (let j = (if i < 0 then int n + i else i)
      in if 0 \<le> j \<and> j < int n then Inr (nat j) else Inl IndexError)"

text \<open>The subscription \<^verbatim>\<open>x[k]\<close>.\<close>

fun py_getitem :: "pyval \<Rightarrow> pyval \<Rightarrow> error + pyval" where
  "py_getitem (PDict kvs) k =
     (if hashable k
      then (case dict_lookup k kvs of None \<Rightarrow> Inl KeyError | Some v \<Rightarrow> Inr v)
      else Inl TypeError)"
| "py_getitem (PList xs) (PInt i) =
     (case seq_index (length xs) i of Inl e \<Rightarrow> Inl e | Inr n \<Rightarrow> Inr (xs ! n))"
| "py_getitem (PList xs) (PBool b) =
     (case seq_index (length xs) (if b then 1 else 0) of Inl e \<Rightarrow> Inl e | Inr n \<Rightarrow> Inr (xs ! n))"
| "py_getitem (PStr s) (PInt i) =
     (case seq_index (length s) i of Inl e \<Rightarrow> Inl e | Inr n \<Rightarrow> Inr (PStr [s ! n]))"
| "py_getitem (PStr s) (PBool b) =
     (case seq_index (length s) (if b then 1 else 0) of Inl e \<Rightarrow> Inl e | Inr n \<Rightarrow> Inr (PStr [s ! n]))"
| "py_getitem _ _ = Inl TypeError"

text \<open>The method call \<^verbatim>\<open>x.get(k, d)\<close>: only a dictionary has it.\<close>

fun py_get_default :: "pyval \<Rightarrow> pyval \<Rightarrow> pyval \<Rightarrow> error + pyval" where
  "py_get_default (PDict kvs) k d =
     (if hashable k
      then (case dict_lookup k kvs of None \<Rightarrow> Inr d | Some v \<Rightarrow> Inr v)
      else Inl TypeError)"
| "py_get_default _ k d = Inl AttributeError"

definition py_get :: "pyval \<Rightarrow> pyval \<Rightarrow> error + pyval" where
  "py_get x k = py_get_default x k PNone"

text \<open>Iteration (\<^verbatim>\<open>for k in x\<close>, tuple unpacking): a list gives its elements, a string
  its characters, a dictionary its keys.\<close>

fun py_iter :: "pyval \<Rightarrow> error + pyval list" where
  "py_iter (PList xs) = Inr xs"
| "py_iter (PStr s) = Inr (map (\<lambda>c. PStr [c]) s)"
| "py_iter (PDict kvs) = Inr (map fst kvs)"
| "py_iter _ = Inl TypeError"


text \<open>\<^verbatim>\<open>(j,) = x\<close> and \<^verbatim>\<open>a, b = x\<close>.\<close>

definition unpack1 :: "pyval \<Rightarrow> error + pyval" where
  "unpack1 x =
     (case py_iter x of
        Inl e \<Rightarrow> Inl e
      | Inr [j] \<Rightarrow> Inr j
      | Inr _ \<Rightarrow> Inl ValueError)"

definition unpack2 :: "pyval \<Rightarrow> error + pyval \<times> pyval" where
  "unpack2 x =
     (case py_iter x of
        Inl e \<Rightarrow> Inl e
      | Inr [a, b] \<Rightarrow> Inr (a, b)
      | Inr _ \<Rightarrow> Inl ValueError)"

subsection \<open>Strings\<close>

text \<open>\<^verbatim>\<open>str.lower\<close> on code points below 256: the ASCII capitals and the capitals of
  Latin-1 (U+00C0 to U+00DE without the multiplication sign U+00D7) move up by 32.\<close>

definition lower_char :: "char \<Rightarrow> char" where
  "lower_char c =
     (let n = of_char c :: nat
      in if (65 \<le> n \<and> n \<le> 90) \<or> (192 \<le> n \<and> n \<le> 222 \<and> n \<noteq> 215)
         then char_of (n + 32) else c)"

definition lower :: "string \<Rightarrow> string" where
  "lower s = map lower_char s"

text \<open>The decimal rendering of an integer, as \<^verbatim>\<open>str\<close> and \<^verbatim>\<open>"{}".format\<close> give it.\<close>

fun str_nat :: "nat \<Rightarrow> string" where
  "str_nat n =
     (if n < 10 then [char_of (48 + n)]
      else str_nat (n div 10) @ [char_of (48 + n mod 10)])"

declare str_nat.simps [simp del]

definition str_int :: "int \<Rightarrow> string" where
  "str_int i = (if i < 0 then CHR ''-'' # str_nat (nat (- i)) else str_nat (nat i))"

section \<open>Sessions and threads\<close>

text \<open>
  The definitions below follow \<^verbatim>\<open>_thread.py\<close> method by method and keep its names. A
  leading underscore is dropped; \<^verbatim>\<open>_send_location\<close>, \<^verbatim>\<open>_mute_reactions\<close> and
  \<^verbatim>\<open>_mute_mentions\<close>, whose names without the underscore are taken by public methods,
  are \<open>send_location_current\<close>, \<open>mute_reactions_mode\<close> and \<open>mute_mentions_mode\<close>; the
  attribute \<open>id\<close> is \<open>thread_id\<close>. A method returns its result, or the exception it
  raises, together with the state of the session.

  The session is a collaborator outside the module. A thread holds a reference to it
  and reaches the remote service only through three of its methods. Each call is
  recorded, with the session it went through, and answered by the transport, which may
  look at every call made so far (the newest last). The transport either raises or
  returns a value.
\<close>

type_synonym sref = nat

type_synonym payload = "(string \<times> pyval) list"

datatype request =
    PayloadPost sref string payload
  | GraphqlQueryId sref string payload
  | GraphqlDocId sref string payload
  | SendRequest sref payload

record net =
  respond :: "request list \<Rightarrow> string + pyval"
  log :: "request list"

definition perform :: "request \<Rightarrow> net \<Rightarrow> (error + pyval) \<times> net" where
  "perform r n =
     (let lg = log n @ [r]
      in (case respond n lg of Inl x \<Rightarrow> Inl (SessionRaised x) | Inr v \<Rightarrow> Inr v,
          n\<lparr>log := lg\<rparr>))"

text \<open>\<^verbatim>\<open>data[k] = v\<close> on a payload, whose keys are strings.\<close>

fun payload_set :: "string \<Rightarrow> pyval \<Rightarrow> payload \<Rightarrow> payload" where
  "payload_set k v [] = [(k, v)]"
| "payload_set k v ((k', v') # kvs) =
     (if k = k' then (k', v) # kvs else (k', v') # payload_set k v kvs)"

text \<open>The classes of threads. \<open>Thread\<close> is defined in the module; \<open>User\<close>, \<open>Group\<close> and
  \<open>Page\<close> are the subclasses of \<open>ThreadABC\<close> that the module names.\<close>

datatype thread_class = ThreadClass | UserClass | GroupClass | PageClass

record thread =
  cls :: thread_class
  session :: sref
  thread_id :: string

definition DEFAULT_COLOR :: string where
  "DEFAULT_COLOR = ''#0084ff''"

definition SETABLE_COLORS :: "string list" where
  "SETABLE_COLORS =
     [DEFAULT_COLOR, ''#44bec7'', ''#ffc300'', ''#fa3c4c'', ''#d696bb'', ''#6699cc'',
      ''#13cf13'', ''#ff7e29'', ''#e68585'', ''#7646ff'', ''#20cef5'', ''#67b868'',
      ''#d4a88c'', ''#ff5ca1'', ''#a695c7'', ''#ff7ca8'', ''#1adb5b'', ''#f01d6a'',
      ''#ff9c19'', ''#0edcde'']"

subsection \<open>Thread settings\<close>

definition set_color :: "thread \<Rightarrow> string \<Rightarrow> net \<Rightarrow> (error + unit) \<times> net" where
  "set_color self color n =
     (if color \<notin> set SETABLE_COLORS then (Inl ValueError, n)
      else
        let color' = (if color = DEFAULT_COLOR then [] else color);
            data = [(''color_choice'', PStr color'), (''thread_or_other_fbid'', PStr (thread_id self))];
            (j, n') = perform (PayloadPost (session self)
                        ''/messaging/save_thread_color/?source=thread_settings&dpr=1'' data) n
        in (case j of Inl e \<Rightarrow> (Inl e, n') | Inr _ \<Rightarrow> (Inr (), n')))"

definition set_nickname :: "thread \<Rightarrow> string \<Rightarrow> string \<Rightarrow> net \<Rightarrow> (error + unit) \<times> net" where
  "set_nickname self user_id nickname n =
     (let data = [(''nickname'', PStr nickname), (''participant_id'', PStr user_id),
                  (''thread_or_other_fbid'', PStr (thread_id self))];
          (j, n') = perform (PayloadPost (session self)
                      ''/messaging/save_thread_nickname/?source=thread_settings&dpr=1'' data) n
      in (case j of Inl e \<Rightarrow> (Inl e, n') | Inr _ \<Rightarrow> (Inr (), n')))"

definition set_emoji :: "thread \<Rightarrow> string \<Rightarrow> net \<Rightarrow> (error + unit) \<times> net" where
  "set_emoji self emoji n =
     (let data = [(''emoji_choice'', PStr emoji), (''thread_or_other_fbid'', PStr (thread_id self))];
          (j, n') = perform (PayloadPost (session self)
                      ''/messaging/save_thread_emoji/?source=thread_settings&dpr=1'' data) n
      in (case j of Inl e \<Rightarrow> (Inl e, n') | Inr _ \<Rightarrow> (Inr (), n')))"

text \<open>The key of the recipient map holds an offline threading identifier, which
  \<^verbatim>\<open>_util.generate_offline_threading_id\<close> draws at random; it is an argument here.\<close>

definition forward_attachment :: "thread \<Rightarrow> pyval \<Rightarrow> string \<Rightarrow> net \<Rightarrow> (error + unit) \<times> net" where
  "forward_attachment self attachment_id otid n =
     (let data = payload_set (''recipient_map['' @ otid @ '']'') (PStr (thread_id self))
                   [(''attachment_id'', attachment_id)];
          (r, n') = perform (PayloadPost (session self) ''/mercury/attachments/forward/'' data) n
      in (case r of
            Inl e \<Rightarrow> (Inl e, n')
          | Inr j \<Rightarrow>
              (case py_get j (PStr ''success'') of
                 Inl e \<Rightarrow> (Inl e, n')
               | Inr ok \<Rightarrow>
                   if truthy ok then (Inr (), n')
                   else (case py_getitem j (PStr ''error'') of
                           Inl e \<Rightarrow> (Inl e, n')
                         | Inr msg \<Rightarrow> (Inl (FBchatFacebookError msg msg), n')))))"

definition set_typing :: "thread \<Rightarrow> bool \<Rightarrow> net \<Rightarrow> (error + unit) \<times> net" where
  "set_typing self typing n =
     (let data = [(''typ'', PStr (if typing then ''1'' else ''0'')),
                  (''thread'', PStr (thread_id self)), (''source'', PStr ''mercury-chat'')];
          (j, n') = perform (PayloadPost (session self) ''/ajax/messaging/typ.php'' data) n
      in (case j of Inl e \<Rightarrow> (Inl e, n') | Inr _ \<Rightarrow> (Inr (), n')))"

definition start_typing :: "thread \<Rightarrow> net \<Rightarrow> (error + unit) \<times> net" where
  "start_typing self n = set_typing self True n"

definition stop_typing :: "thread \<Rightarrow> net \<Rightarrow> (error + unit) \<times> net" where
  "stop_typing self n = set_typing self False n"

subsection \<open>Polls\<close>

text \<open>The two keys of the option with index \<open>i\<close>: \<^verbatim>\<open>"option_text_array[{}]".format(i)\<close>
  and \<^verbatim>\<open>"option_is_selected_array[{}]".format(i)\<close>.\<close>

definition option_text_key :: "nat \<Rightarrow> string" where
  "option_text_key i = ''option_text_array['' @ str_nat i @ '']''"

definition option_is_selected_key :: "nat \<Rightarrow> string" where
  "option_is_selected_key i = ''option_is_selected_array['' @ str_nat i @ '']''"

text \<open>The loop over \<^verbatim>\<open>enumerate(options.items())\<close>, from index \<open>i\<close> on.\<close>

fun poll_options :: "nat \<Rightarrow> (string \<times> bool) list \<Rightarrow> payload \<Rightarrow> payload" where
  "poll_options i [] data = data"
| "poll_options i ((option_text, vote) # rest) data =
     poll_options (Suc i) rest
       (payload_set (option_is_selected_key i) (PStr (if vote then ''1'' else ''0''))
          (payload_set (option_text_key i) (PStr option_text) data))"

text \<open>The exception \<open>FBchatFacebookError\<close> keeps the two values that the source formats
  into its message: the response's \<open>errorTitle\<close> and \<open>errorMessage\<close>.\<close>

definition create_poll :: "thread \<Rightarrow> string \<Rightarrow> (string \<times> bool) list \<Rightarrow> net \<Rightarrow> (error + unit) \<times> net" where
  "create_poll self question options n =
     (let data = poll_options 0 options
                   [(''question_text'', PStr question), (''target_id'', PStr (thread_id self))];
          (r, n') = perform (PayloadPost (session self)
                      ''/messaging/group_polling/create_poll/?dpr=1'' data) n
      in (case r of
            Inl e \<Rightarrow> (Inl e, n')
          | Inr j \<Rightarrow>
              (case py_get j (PStr ''status'') of
                 Inl e \<Rightarrow> (Inl e, n')
               | Inr status \<Rightarrow>
                   if \<not> py_eq status (PStr ''success'')
                   then (case py_get j (PStr ''errorTitle'') of
                           Inl e \<Rightarrow> (Inl e, n')
                         | Inr title \<Rightarrow>
                             (case py_get j (PStr ''errorMessage'') of
                                Inl e \<Rightarrow> (Inl e, n')
                              | Inr msg \<Rightarrow> (Inl (FBchatFacebookError title msg), n')))
                   else (Inr (), n'))))"

subsection \<open>Muting\<close>

text \<open>A \<^verbatim>\<open>datetime.timedelta\<close> as Python keeps it: its days, its seconds within the day
  and its microseconds within the second. \<^verbatim>\<open>datetime.timedelta(d)\<close> is a duration of \<open>d\<close>
  days.\<close>

record timedelta =
  days :: int
  seconds :: int
  microseconds :: int

definition timedelta_days :: "int \<Rightarrow> timedelta" where
  "timedelta_days d = \<lparr>days = d, seconds = 0, microseconds = 0\<rparr>"

text \<open>\<^verbatim>\<open>_util.timedelta_to_seconds\<close> is outside the module and is the argument
  \<open>timedelta_to_seconds\<close>. It is taken to return an integer, of which \<^verbatim>\<open>str\<close> is posted.\<close>

definition mute ::
  "(timedelta \<Rightarrow> int) \<Rightarrow> thread \<Rightarrow> timedelta option \<Rightarrow> net \<Rightarrow> (error + unit) \<times> net" where
  "mute timedelta_to_seconds self duration n =
     (let setting = (case duration of
                       None \<Rightarrow> ''-1''
                     | Some d \<Rightarrow> str_int (timedelta_to_seconds d));
          data = [(''mute_settings'', PStr setting), (''thread_fbid'', PStr (thread_id self))];
          (j, n') = perform (PayloadPost (session self)
                      ''/ajax/mercury/change_mute_thread.php?dpr=1'' data) n
      in (case j of Inl e \<Rightarrow> (Inl e, n') | Inr _ \<Rightarrow> (Inr (), n')))"

definition unmute :: "(timedelta \<Rightarrow> int) \<Rightarrow> thread \<Rightarrow> net \<Rightarrow> (error + unit) \<times> net" where
  "unmute timedelta_to_seconds self n = mute timedelta_to_seconds self (Some (timedelta_days 0)) n"

definition mute_reactions_mode :: "thread \<Rightarrow> bool \<Rightarrow> net \<Rightarrow> (error + unit) \<times> net" where
  "mute_reactions_mode self mode n =
     (let data = [(''reactions_mute_mode'', PStr (if mode then ''1'' else ''0'')),
                  (''thread_fbid'', PStr (thread_id self))];
          (j, n') = perform (PayloadPost (session self)
                      ''/ajax/mercury/change_reactions_mute_thread/?dpr=1'' data) n
      in (case j of Inl e \<Rightarrow> (Inl e, n') | Inr _ \<Rightarrow> (Inr (), n')))"

definition mute_reactions :: "thread \<Rightarrow> net \<Rightarrow> (error + unit) \<times> net" where
  "mute_reactions self n = mute_reactions_mode self True n"

definition unmute_reactions :: "thread \<Rightarrow> net \<Rightarrow> (error + unit) \<times> net" where
  "unmute_reactions self n = mute_reactions_mode self False n"

definition mute_mentions_mode :: "thread \<Rightarrow> bool \<Rightarrow> net \<Rightarrow> (error + unit) \<times> net" where
  "mute_mentions_mode self mode n =
     (let data = [(''mentions_mute_mode'', PStr (if mode then ''1'' else ''0'')),
                  (''thread_fbid'', PStr (thread_id self))];
          (j, n') = perform (PayloadPost (session self)
                      ''/ajax/mercury/change_mentions_mute_thread/?dpr=1'' data) n
      in (case j of Inl e \<Rightarrow> (Inl e, n') | Inr _ \<Rightarrow> (Inr (), n')))"

definition mute_mentions :: "thread \<Rightarrow> net \<Rightarrow> (error + unit) \<times> net" where
  "mute_mentions self n = mute_mentions_mode self True n"

definition unmute_mentions :: "thread \<Rightarrow> net \<Rightarrow> (error + unit) \<times> net" where
  "unmute_mentions self n = mute_mentions_mode self False n"

definition mark_as_spam :: "thread \<Rightarrow> net \<Rightarrow> (error + unit) \<times> net" where
  "mark_as_spam self n =
     (let data = [(''id'', PStr (thread_id self))];
          (j, n') = perform (PayloadPost (session self) ''/ajax/mercury/mark_spam.php?dpr=1'' data) n
      in (case j of Inl e \<Rightarrow> (Inl e, n') | Inr _ \<Rightarrow> (Inr (), n')))"

subsection \<open>Sending\<close>

text \<open>
  \<^verbatim>\<open>_to_send_data\<close> is abstract in \<open>ThreadABC\<close>. The class \<open>Thread\<close> implements it by
  raising \<open>NotImplementedError\<close>; the implementations of the other classes are outside
  the module and are the argument \<open>sub\<close>.
\<close>

definition to_send_data :: "(thread \<Rightarrow> error + payload) \<Rightarrow> thread \<Rightarrow> error + payload" where
  "to_send_data sub self =
     (case cls self of ThreadClass \<Rightarrow> Inl NotImplementedError | _ \<Rightarrow> sub self)"

definition wave :: "(thread \<Rightarrow> error + payload) \<Rightarrow> thread \<Rightarrow> bool \<Rightarrow> net \<Rightarrow> (error + pyval) \<times> net" where
  "wave sub self first n =
     (case to_send_data sub self of
        Inl e \<Rightarrow> (Inl e, n)
      | Inr data0 \<Rightarrow>
          let data1 = payload_set ''action_type'' (PStr ''ma-type:user-generated-message'') data0;
              data2 = payload_set ''lightweight_action_attachment[lwa_state]''
                        (PStr (if first then ''INITIATED'' else ''RECIPROCATED'')) data1;
              data3 = payload_set ''lightweight_action_attachment[lwa_type]'' (PStr ''WAVE'') data2;
              (r, n') = perform (SendRequest (session self) data3) n
          in (case r of
                Inl e \<Rightarrow> (Inl e, n')
              | Inr v \<Rightarrow>
                  (case unpack2 v of
                     Inl e \<Rightarrow> (Inl e, n')
                   | Inr (message_id, _) \<Rightarrow> (Inr message_id, n'))))"

text \<open>\<^verbatim>\<open>data.update(d)\<close> stores the entries of \<open>d\<close> one after the other.\<close>

definition payload_update :: "payload \<Rightarrow> payload \<Rightarrow> payload" where
  "payload_update d data = fold (\<lambda>(k, v). payload_set k v) d data"

fun send_mentions :: "('m \<Rightarrow> nat \<Rightarrow> payload) \<Rightarrow> nat \<Rightarrow> 'm list \<Rightarrow> payload \<Rightarrow> payload" where
  "send_mentions mention_data i [] data = data"
| "send_mentions mention_data i (mention # rest) data =
     send_mentions mention_data (Suc i) rest (payload_update (mention_data mention i) data)"

fun send_file_keys :: "(string \<Rightarrow> string) \<Rightarrow> nat \<Rightarrow> (string \<times> string) list \<Rightarrow> payload \<Rightarrow> payload" where
  "send_file_keys mimetype_to_key i [] data = data"
| "send_file_keys mimetype_to_key i ((file_id, mimetype) # rest) data =
     send_file_keys mimetype_to_key (Suc i) rest
       (payload_set (mimetype_to_key mimetype @ ''s['' @ str_nat i @ '']'') (PStr file_id) data)"

text \<open>The mentions' \<^verbatim>\<open>_to_send_data\<close> and \<^verbatim>\<open>_util.mimetype_to_key\<close> are outside the module
  and are arguments. An omitted argument (\<open>None\<close>) is \<open>None\<close> for the text and the
  reply, and the empty list for the mentions and the files.\<close>

definition send_text ::
  "(thread \<Rightarrow> error + payload) \<Rightarrow> ('m \<Rightarrow> nat \<Rightarrow> payload) \<Rightarrow> (string \<Rightarrow> string) \<Rightarrow>
   thread \<Rightarrow> string option \<Rightarrow> 'm list \<Rightarrow> (string \<times> string) list \<Rightarrow> string option \<Rightarrow>
   net \<Rightarrow> (error + pyval) \<times> net" where
  "send_text sub mention_data mimetype_to_key self text mentions files reply_to_id n =
     (case to_send_data sub self of
        Inl e \<Rightarrow> (Inl e, n)
      | Inr data0 \<Rightarrow>
          let data1 = payload_set ''action_type'' (PStr ''ma-type:user-generated-message'') data0;
              data2 = (case text of None \<Rightarrow> data1 | Some t \<Rightarrow> payload_set ''body'' (PStr t) data1);
              data3 = send_mentions mention_data 0 mentions data2;
              data4 = (if files \<noteq> [] then payload_set ''has_attachment'' (PBool True) data3
                       else data3);
              data5 = send_file_keys mimetype_to_key 0 files data4;
              data6 = (case reply_to_id of
                         None \<Rightarrow> data5
                       | Some r \<Rightarrow>
                           if r \<noteq> [] then payload_set ''replied_to_message_id'' (PStr r) data5
                           else data5)
          in perform (SendRequest (session self) data6) n)"

text \<open>The size of an emoji is a member of an enumeration outside the module; only the
  member's name is used.\<close>

definition send_emoji ::
  "(thread \<Rightarrow> error + payload) \<Rightarrow> thread \<Rightarrow> string \<Rightarrow> string \<Rightarrow> net \<Rightarrow> (error + pyval) \<times> net" where
  "send_emoji sub self emoji size_name n =
     (case to_send_data sub self of
        Inl e \<Rightarrow> (Inl e, n)
      | Inr data0 \<Rightarrow>
          let data1 = payload_set ''action_type'' (PStr ''ma-type:user-generated-message'') data0;
              data2 = payload_set ''body'' (PStr emoji) data1;
              data3 = payload_set ''tags[0]'' (PStr (''hot_emoji_size:'' @ lower size_name)) data2
          in perform (SendRequest (session self) data3) n)"

definition send_sticker ::
  "(thread \<Rightarrow> error + payload) \<Rightarrow> thread \<Rightarrow> string \<Rightarrow> net \<Rightarrow> (error + pyval) \<times> net" where
  "send_sticker sub self sticker_id n =
     (case to_send_data sub self of
        Inl e \<Rightarrow> (Inl e, n)
      | Inr data0 \<Rightarrow>
          let data1 = payload_set ''action_type'' (PStr ''ma-type:user-generated-message'') data0;
              data2 = payload_set ''sticker_id'' (PStr sticker_id) data1
          in perform (SendRequest (session self) data2) n)"

definition send_location_current ::
  "(thread \<Rightarrow> error + payload) \<Rightarrow> thread \<Rightarrow> bool \<Rightarrow> pyval \<Rightarrow> pyval \<Rightarrow> net \<Rightarrow> (error + pyval) \<times> net" where
  "send_location_current sub self current latitude longitude n =
     (case to_send_data sub self of
        Inl e \<Rightarrow> (Inl e, n)
      | Inr data0 \<Rightarrow>
          let data1 = payload_set ''action_type'' (PStr ''ma-type:user-generated-message'') data0;
              data2 = payload_set ''location_attachment[coordinates][latitude]'' latitude data1;
              data3 = payload_set ''location_attachment[coordinates][longitude]'' longitude data2;
              data4 = payload_set ''location_attachment[is_current_location]'' (PBool current) data3
          in perform (SendRequest (session self) data4) n)"

definition send_location ::
  "(thread \<Rightarrow> error + payload) \<Rightarrow> thread \<Rightarrow> pyval \<Rightarrow> pyval \<Rightarrow> net \<Rightarrow> (error + unit) \<times> net" where
  "send_location sub self latitude longitude n =
     (case send_location_current sub self True latitude longitude n of
        (Inl e, n') \<Rightarrow> (Inl e, n')
      | (Inr _, n') \<Rightarrow> (Inr (), n'))"

definition send_pinned_location ::
  "(thread \<Rightarrow> error + payload) \<Rightarrow> thread \<Rightarrow> pyval \<Rightarrow> pyval \<Rightarrow> net \<Rightarrow> (error + unit) \<times> net" where
  "send_pinned_location sub self latitude longitude n =
     (case send_location_current sub self False latitude longitude n of
        (Inl e, n') \<Rightarrow> (Inl e, n')
      | (Inr _, n') \<Rightarrow> (Inr (), n'))"

definition send_files ::
  "(thread \<Rightarrow> error + payload) \<Rightarrow> ('m \<Rightarrow> nat \<Rightarrow> payload) \<Rightarrow> (string \<Rightarrow> string) \<Rightarrow>
   thread \<Rightarrow> (string \<times> string) list \<Rightarrow> net \<Rightarrow> (error + pyval) \<times> net" where
  "send_files sub mention_data mimetype_to_key self files n =
     send_text sub mention_data mimetype_to_key self None [] files None n"

subsection \<open>Searching\<close>

text \<open>
  \<open>search_messages\<close> is a generator. Its model runs it to the end: the result is the
  list of the values it yields, in order, and the exception that stopped it, if one
  did.
\<close>

fun yield_message_ids :: "pyval list \<Rightarrow> pyval list \<times> error option" where
  "yield_message_ids [] = ([], None)"
| "yield_message_ids (snippet # rest) =
     (case py_getitem snippet (PStr ''message_id'') of
        Inl e \<Rightarrow> ([], Some e)
      | Inr m \<Rightarrow> (case yield_message_ids rest of (ms, stop) \<Rightarrow> (m # ms, stop)))"

definition found_snippets :: "thread \<Rightarrow> string \<Rightarrow> pyval \<Rightarrow> error + pyval" where
  "found_snippets self query j =
     (case py_getitem j (PStr ''search_snippets'') of
        Inl e \<Rightarrow> Inl e
      | Inr found \<Rightarrow>
          (case py_getitem found (PStr query) of
             Inl e \<Rightarrow> Inl e
           | Inr result \<Rightarrow>
               (case py_get result (PStr (thread_id self)) of
                  Inl e \<Rightarrow> Inl e
                | Inr entry \<Rightarrow>
                    if truthy entry
                    then (case py_getitem result (PStr (thread_id self)) of
                            Inl e \<Rightarrow> Inl e
                          | Inr entry' \<Rightarrow> py_getitem entry' (PStr ''snippets''))
                    else Inr (PList []))))"

definition search_messages ::
  "thread \<Rightarrow> string \<Rightarrow> int \<Rightarrow> int \<Rightarrow> net \<Rightarrow> (pyval list \<times> error option) \<times> net" where
  "search_messages self query offset limit n =
     (let data = [(''query'', PStr query), (''snippetOffset'', PInt offset),
                  (''snippetLimit'', PInt limit), (''identifier'', PStr ''thread_fbid''),
                  (''thread_fbid'', PStr (thread_id self))];
          (r, n') = perform (PayloadPost (session self)
                      ''/ajax/mercury/search_snippets.php?dpr=1'' data) n
      in (case r of
            Inl e \<Rightarrow> (([], Some e), n')
          | Inr j \<Rightarrow>
              (case found_snippets self query j of
                 Inl e \<Rightarrow> (([], Some e), n')
               | Inr snippets \<Rightarrow>
                   (case py_iter snippets of
                      Inl e \<Rightarrow> (([], Some e), n')
                    | Inr items \<Rightarrow> (yield_message_ids items, n')))))"

subsection \<open>Parsing\<close>

text \<open>The static method \<^verbatim>\<open>_parse_color\<close>. A truthy argument that is not a string fails:
  at the slice, or, for a list, at \<^verbatim>\<open>lower\<close>.\<close>

definition parse_color :: "pyval \<Rightarrow> error + string" where
  "parse_color inp =
     (if \<not> truthy inp then Inr DEFAULT_COLOR
      else (case inp of
              PStr s \<Rightarrow> Inr (CHR ''#'' # lower (drop 2 s))
            | PList xs \<Rightarrow> Inl AttributeError
            | _ \<Rightarrow> Inl TypeError))"








subsection \<open>Shared media\<close>

text \<open>\<^verbatim>\<open>del x[k]\<close>, giving the container without the item.\<close>

fun dict_remove :: "pyval \<Rightarrow> (pyval \<times> pyval) list \<Rightarrow> (pyval \<times> pyval) list" where
  "dict_remove k [] = []"
| "dict_remove k ((k', v) # kvs) = (if py_eq k k' then kvs else (k', v) # dict_remove k kvs)"

fun py_delitem :: "pyval \<Rightarrow> pyval \<Rightarrow> error + pyval" where
  "py_delitem (PList xs) (PInt i) =
     (case seq_index (length xs) i of
        Inl e \<Rightarrow> Inl e
      | Inr n \<Rightarrow> Inr (PList (take n xs @ drop (Suc n) xs)))"
| "py_delitem (PList xs) (PBool b) =
     (case seq_index (length xs) (if b then 1 else 0) of
        Inl e \<Rightarrow> Inl e
      | Inr n \<Rightarrow> Inr (PList (take n xs @ drop (Suc n) xs)))"
| "py_delitem (PDict kvs) k =
     (if hashable k
      then (case dict_lookup k kvs of
              None \<Rightarrow> Inl KeyError
            | Some _ \<Rightarrow> Inr (PDict (dict_remove k kvs)))
      else Inl TypeError)"
| "py_delitem _ _ = Inl TypeError"

text \<open>A response is a tree of values, so changing an item in place is the same as
  putting the changed item back under its key. Only a dictionary has items under a
  string.\<close>

fun replace_item :: "pyval \<Rightarrow> string \<Rightarrow> pyval \<Rightarrow> pyval" where
  "replace_item (PDict kvs) k v = PDict (dict_store (PStr k) v kvs)"
| "replace_item x k v = x"

definition shared_media :: "thread \<Rightarrow> pyval \<Rightarrow> error + pyval" where
  "shared_media self j =
     (case py_getitem j (PStr (thread_id self)) of
        Inl e \<Rightarrow> Inl e
      | Inr t \<Rightarrow> py_getitem t (PStr ''message_shared_media''))"

definition media_edges :: "thread \<Rightarrow> pyval \<Rightarrow> error + pyval" where
  "media_edges self j =
     (case shared_media self j of
        Inl e \<Rightarrow> Inl e
      | Inr m \<Rightarrow> py_getitem m (PStr ''edges''))"

definition first_edge :: "thread \<Rightarrow> pyval \<Rightarrow> error + pyval" where
  "first_edge self j =
     (case media_edges self j of
        Inl e \<Rightarrow> Inl e
      | Inr es \<Rightarrow> py_getitem es (PInt 0))"

definition page_info :: "thread \<Rightarrow> pyval \<Rightarrow> pyval \<Rightarrow> error + pyval" where
  "page_info self j k =
     (case shared_media self j of
        Inl e \<Rightarrow> Inl e
      | Inr m \<Rightarrow>
          (case py_getitem m (PStr ''page_info'') of
             Inl e \<Rightarrow> Inl e
           | Inr info \<Rightarrow> py_get info k))"

definition delete_first_edge :: "thread \<Rightarrow> pyval \<Rightarrow> error + pyval" where
  "delete_first_edge self j =
     (case py_getitem j (PStr (thread_id self)) of
        Inl e \<Rightarrow> Inl e
      | Inr t \<Rightarrow>
          (case py_getitem t (PStr ''message_shared_media'') of
             Inl e \<Rightarrow> Inl e
           | Inr m \<Rightarrow>
               (case py_getitem m (PStr ''edges'') of
                  Inl e \<Rightarrow> Inl e
                | Inr es \<Rightarrow>
                    (case py_delitem es (PInt 0) of
                       Inl e \<Rightarrow> Inl e
                     | Inr es' \<Rightarrow>
                         Inr (replace_item j (thread_id self)
                                (replace_item t ''message_shared_media''
                                   (replace_item m ''edges'' es')))))))"

text \<open>
  The attachment classes are outside the module. Their constructors are arguments:
  \<open>image_from_list\<close> and \<open>video_from_list\<close> for the two \<^verbatim>\<open>_from_list\<close> class methods, which
  may raise, and \<open>attachment\<close> for \<^verbatim>\<open>Attachment(id=...)\<close>.
\<close>

definition attachment_of ::
  "(pyval \<Rightarrow> error + 'a) \<Rightarrow> (pyval \<Rightarrow> error + 'a) \<Rightarrow> (pyval \<Rightarrow> 'a) \<Rightarrow> pyval \<Rightarrow> error + 'a" where
  "attachment_of image_from_list video_from_list attachment i =
     (case py_getitem i (PStr ''node'') of
        Inl e \<Rightarrow> Inl e
      | Inr node \<Rightarrow>
          (case py_get node (PStr ''__typename'') of
             Inl e \<Rightarrow> Inl e
           | Inr ty \<Rightarrow>
               if py_eq ty (PStr ''MessageImage'') then image_from_list i
               else if py_eq ty (PStr ''MessageVideo'') then video_from_list i
               else (case py_get node (PStr ''legacy_attachment_id'') of
                       Inl e \<Rightarrow> Inl e
                     | Inr a \<Rightarrow> Inr (attachment a))))"

text \<open>
  \<open>fetch_images\<close> is a generator whose loop ends only at \<^verbatim>\<open>break\<close> or at an exception.
  Its model runs the generator to its end and is partial: \<open>None\<close> stands for a run that
  never ends. A run that ends gives the attachments yielded, in order, the exception
  that stopped it, if one did, the session's state, and the last values of the local
  variables \<open>j\<close> and \<open>data\<close>.
\<close>

record 'a images_run =
  yielded :: "'a list"
  raised :: "error option"
  net_after :: net
  last_j :: pyval
  last_data :: payload

partial_function (option) fetch_images_loop ::
  "(pyval \<Rightarrow> error + 'a) \<Rightarrow> (pyval \<Rightarrow> error + 'a) \<Rightarrow> (pyval \<Rightarrow> 'a) \<Rightarrow>
   thread \<Rightarrow> payload \<Rightarrow> pyval \<Rightarrow> net \<Rightarrow> 'a list \<Rightarrow> 'a images_run option" where
  "fetch_images_loop image_from_list video_from_list attachment self data j n acc =
     (case first_edge self j of
        Inl IndexError \<Rightarrow>
          (case page_info self j (PStr ''has_next_page'') of
             Inl e \<Rightarrow>
               Some \<lparr>yielded = acc, raised = Some e, net_after = n, last_j = j, last_data = data\<rparr>
           | Inr has_next \<Rightarrow>
               if truthy has_next
               then (case page_info self j (PStr ''end_cursor'') of
                       Inl e \<Rightarrow>
                         Some \<lparr>yielded = acc, raised = Some e, net_after = n, last_j = j,
                               last_data = data\<rparr>
                     | Inr cursor \<Rightarrow>
                         (let data' = payload_set ''after'' cursor data
                          in case perform (GraphqlQueryId (session self) ''515216185516880'' data') n of
                            (Inl e, n') \<Rightarrow>
                              Some \<lparr>yielded = acc, raised = Some e, net_after = n', last_j = j,
                                    last_data = data'\<rparr>
                          | (Inr v, n') \<Rightarrow>
                              (case unpack1 v of
                                 Inl e \<Rightarrow>
                                   Some \<lparr>yielded = acc, raised = Some e, net_after = n',
                                         last_j = j, last_data = data'\<rparr>
                               | Inr j' \<Rightarrow>
                                   fetch_images_loop image_from_list video_from_list attachment
                                     self data' j' n' acc)))
               else Some \<lparr>yielded = acc, raised = None, net_after = n, last_j = j,
                          last_data = data\<rparr>)
      | Inl e \<Rightarrow>
          Some \<lparr>yielded = acc, raised = Some e, net_after = n, last_j = j, last_data = data\<rparr>
      | Inr i \<Rightarrow>
          (case attachment_of image_from_list video_from_list attachment i of
             Inl e \<Rightarrow>
               Some \<lparr>yielded = acc, raised = Some e, net_after = n, last_j = j, last_data = data\<rparr>
           | Inr a \<Rightarrow>
               (case delete_first_edge self j of
                  Inl e \<Rightarrow>
                    Some \<lparr>yielded = acc @ [a], raised = Some e, net_after = n, last_j = j,
                          last_data = data\<rparr>
                | Inr j' \<Rightarrow>
                    fetch_images_loop image_from_list video_from_list attachment
                      self data j' n (acc @ [a]))))"

text \<open>The outcome of \<open>fetch_images\<close>: what was yielded, the exception that stopped the
  generator, if one did, and the session's state.\<close>

definition fetch_images ::
  "(pyval \<Rightarrow> error + 'a) \<Rightarrow> (pyval \<Rightarrow> error + 'a) \<Rightarrow> (pyval \<Rightarrow> 'a) \<Rightarrow>
   thread \<Rightarrow> net \<Rightarrow> ('a list \<times> error option \<times> net) option" where
  "fetch_images image_from_list video_from_list attachment self n =
     (let data = [(''id'', PStr (thread_id self)), (''first'', PInt 48)]
      in case perform (GraphqlQueryId (session self) ''515216185516880'' data) n of
        (Inl e, n') \<Rightarrow> Some ([], Some e, n')
      | (Inr v, n') \<Rightarrow>
          (case unpack1 v of
             Inl e \<Rightarrow> Some ([], Some e, n')
           | Inr j \<Rightarrow>
               map_option (\<lambda>r. (yielded r, raised r, net_after r))
                 (fetch_images_loop image_from_list video_from_list attachment self data j n' [])))"

definition forced_fetch :: "thread \<Rightarrow> string \<Rightarrow> net \<Rightarrow> (error + pyval) \<times> net" where
  "forced_fetch self message_id n =
     (let params = [(''thread_and_message_id'',
                     PDict [(PStr ''thread_id'', PStr (thread_id self)),
                            (PStr ''message_id'', PStr message_id)])]
      in case perform (GraphqlDocId (session self) ''1768656253222505'' params) n of
        (Inl e, n') \<Rightarrow> (Inl e, n')
      | (Inr v, n') \<Rightarrow> (unpack1 v, n'))"

subsection \<open>Plans and participants\<close>

text \<open>\<open>create_plan\<close> only calls \<^verbatim>\<open>Plan._create\<close>, which is outside the module and is the
  argument \<open>plan_create\<close>.\<close>

definition create_plan ::
  "(thread \<Rightarrow> string \<Rightarrow> 'dt \<Rightarrow> string option \<Rightarrow> string option \<Rightarrow> net \<Rightarrow> (error + 'p) \<times> net) \<Rightarrow>
   thread \<Rightarrow> string \<Rightarrow> 'dt \<Rightarrow> string option \<Rightarrow> string option \<Rightarrow> net \<Rightarrow> (error + 'p) \<times> net" where
  "create_plan plan_create self name at location_name location_id n =
     plan_create self name at location_name location_id n"

text \<open>The static generator \<^verbatim>\<open>_parse_participants\<close>, run to its end. The constructors of
  \<open>User\<close>, \<open>Group\<close> and \<open>Page\<close> are outside the module and are the argument \<open>construct\<close>.
  The warning that is logged for an unknown type is not modelled.\<close>

fun parse_participant_nodes ::
  "(thread_class \<Rightarrow> sref \<Rightarrow> pyval \<Rightarrow> 'o) \<Rightarrow> sref \<Rightarrow> pyval list \<Rightarrow> 'o list \<times> error option" where
  "parse_participant_nodes construct s [] = ([], None)"
| "parse_participant_nodes construct s (node # rest) =
     (case py_getitem node (PStr ''messaging_actor'') of
        Inl e \<Rightarrow> ([], Some e)
      | Inr actor \<Rightarrow>
          (case py_getitem actor (PStr ''__typename'') of
             Inl e \<Rightarrow> ([], Some e)
           | Inr typename \<Rightarrow>
               (case py_getitem actor (PStr ''id'') of
                  Inl e \<Rightarrow> ([], Some e)
                | Inr i \<Rightarrow>
                    (case parse_participant_nodes construct s rest of
                       (ys, stop) \<Rightarrow>
                         if py_eq typename (PStr ''User'') then (construct UserClass s i # ys, stop)
                         else if py_eq typename (PStr ''MessageThread'')
                           then (construct GroupClass s i # ys, stop)
                         else if py_eq typename (PStr ''Page'') then (construct PageClass s i # ys, stop)
                         else (ys, stop)))))"

definition parse_participants ::
  "(thread_class \<Rightarrow> sref \<Rightarrow> pyval \<Rightarrow> 'o) \<Rightarrow> sref \<Rightarrow> pyval \<Rightarrow> 'o list \<times> error option" where
  "parse_participants construct s data =
     (case py_getitem data (PStr ''nodes'') of
        Inl e \<Rightarrow> ([], Some e)
      | Inr nodes \<Rightarrow>
          (case py_iter nodes of
             Inl e \<Rightarrow> ([], Some e)
           | Inr ns \<Rightarrow> parse_participant_nodes construct s ns))"

subsection \<open>The class \<open>Thread\<close>\<close>

text \<open>
  The attribute \<open>id\<close> of \<open>Thread\<close> has the converter \<^verbatim>\<open>str\<close>, and the constructor checks
  nothing else: it accepts every object that \<^verbatim>\<open>str\<close> accepts. \<^verbatim>\<open>str\<close> of a string is the
  string itself, of an integer its decimal digits, of \<^verbatim>\<open>None\<close>, \<^verbatim>\<open>True\<close> and \<^verbatim>\<open>False\<close> their
  names; an object of any other class is given by the string that its own \<^verbatim>\<open>__str__\<close>
  returns, which may be empty.
\<close>

datatype id_value = IdStr string | IdInt int | IdNone | IdBool bool | IdObject string

fun py_str :: "id_value \<Rightarrow> string" where
  "py_str (IdStr s) = s"
| "py_str (IdInt i) = str_int i"
| "py_str IdNone = ''None''"
| "py_str (IdBool b) = (if b then ''True'' else ''False'')"
| "py_str (IdObject s) = s"

definition Thread :: "sref \<Rightarrow> id_value \<Rightarrow> thread" where
  "Thread s i = \<lparr>cls = ThreadClass, session = s, thread_id = py_str i\<rparr>"

section \<open>Thread objects in a store\<close>

text \<open>
  Python passes a thread to its methods by reference, so a method could assign to the
  fields of its receiver. To say that none does, the thread objects live in a store:
  the address of an object is its index. A method takes the address of its receiver
  and the store, with the state of the session in it, and gives back its result and the
  store.
\<close>

record world =
  threads :: "thread list"
  net_of :: net

subsection \<open>The methods on the store\<close>

text \<open>
  The definitions of the section before pass the receiver by value, which is enough
  for what a method computes and sends. Whether a method changes its receiver is a
  question about the reference: here the bodies are given once more, statement by
  statement, over the store. The receiver is the address \<open>a\<close>; \<^verbatim>\<open>self.id\<close> and
  \<^verbatim>\<open>self.session\<close> read the object that is at \<open>a\<close> at that moment; a call of the session
  is not handed the thread and changes the state of the session only; outside code that
  is handed the receiver (the subclasses' \<^verbatim>\<open>_to_send_data\<close>, \<^verbatim>\<open>Plan._create\<close>) gets the
  address and the store and gives back a store. A definition on the store has the
  name of the method with \<open>_at\<close>.
\<close>

definition session_call :: "request \<Rightarrow> world \<Rightarrow> (error + pyval) \<times> world" where
  "session_call r w = (case perform r (net_of w) of (j, n') \<Rightarrow> (j, w\<lparr>net_of := n'\<rparr>))"

definition to_send_data_at ::
  "(nat \<Rightarrow> world \<Rightarrow> (error + payload) \<times> world) \<Rightarrow> nat \<Rightarrow> world \<Rightarrow> (error + payload) \<times> world" where
  "to_send_data_at sub a w =
     (case cls (threads w ! a) of ThreadClass \<Rightarrow> (Inl NotImplementedError, w) | _ \<Rightarrow> sub a w)"

definition wave_at ::
  "(nat \<Rightarrow> world \<Rightarrow> (error + payload) \<times> world) \<Rightarrow> nat \<Rightarrow> bool \<Rightarrow> world \<Rightarrow> (error + pyval) \<times> world" where
  "wave_at sub a first w =
     (case to_send_data_at sub a w of
        (Inl e, w0) \<Rightarrow> (Inl e, w0)
      | (Inr data0, w0) \<Rightarrow>
          let data1 = payload_set ''action_type'' (PStr ''ma-type:user-generated-message'') data0;
              data2 = payload_set ''lightweight_action_attachment[lwa_state]''
                        (PStr (if first then ''INITIATED'' else ''RECIPROCATED'')) data1;
              data3 = payload_set ''lightweight_action_attachment[lwa_type]'' (PStr ''WAVE'') data2;
              (r, w') = session_call (SendRequest (session (threads w0 ! a)) data3) w0
          in (case r of
                Inl e \<Rightarrow> (Inl e, w')
              | Inr v \<Rightarrow>
                  (case unpack2 v of
                     Inl e \<Rightarrow> (Inl e, w')
                   | Inr (message_id, _) \<Rightarrow> (Inr message_id, w'))))"

definition send_text_at ::
  "(nat \<Rightarrow> world \<Rightarrow> (error + payload) \<times> world) \<Rightarrow> ('m \<Rightarrow> nat \<Rightarrow> payload) \<Rightarrow> (string \<Rightarrow> string) \<Rightarrow>
   nat \<Rightarrow> string option \<Rightarrow> 'm list \<Rightarrow> (string \<times> string) list \<Rightarrow> string option \<Rightarrow>
   world \<Rightarrow> (error + pyval) \<times> world" where
  "send_text_at sub mention_data mimetype_to_key a text mentions files reply_to_id w =
     (case to_send_data_at sub a w of
        (Inl e, w0) \<Rightarrow> (Inl e, w0)
      | (Inr data0, w0) \<Rightarrow>
          let data1 = payload_set ''action_type'' (PStr ''ma-type:user-generated-message'') data0;
              data2 = (case text of None \<Rightarrow> data1 | Some t \<Rightarrow> payload_set ''body'' (PStr t) data1);
              data3 = send_mentions mention_data 0 mentions data2;
              data4 = (if files \<noteq> [] then payload_set ''has_attachment'' (PBool True) data3
                       else data3);
              data5 = send_file_keys mimetype_to_key 0 files data4;
              data6 = (case reply_to_id of
                         None \<Rightarrow> data5
                       | Some r \<Rightarrow>
                           if r \<noteq> [] then payload_set ''replied_to_message_id'' (PStr r) data5
                           else data5)
          in session_call (SendRequest (session (threads w0 ! a)) data6) w0)"

definition send_emoji_at ::
  "(nat \<Rightarrow> world \<Rightarrow> (error + payload) \<times> world) \<Rightarrow> nat \<Rightarrow> string \<Rightarrow> string \<Rightarrow> world \<Rightarrow>
   (error + pyval) \<times> world" where
  "send_emoji_at sub a emoji size_name w =
     (case to_send_data_at sub a w of
        (Inl e, w0) \<Rightarrow> (Inl e, w0)
      | (Inr data0, w0) \<Rightarrow>
          let data1 = payload_set ''action_type'' (PStr ''ma-type:user-generated-message'') data0;
              data2 = payload_set ''body'' (PStr emoji) data1;
              data3 = payload_set ''tags[0]'' (PStr (''hot_emoji_size:'' @ lower size_name)) data2
          in session_call (SendRequest (session (threads w0 ! a)) data3) w0)"

definition send_sticker_at ::
  "(nat \<Rightarrow> world \<Rightarrow> (error + payload) \<times> world) \<Rightarrow> nat \<Rightarrow> string \<Rightarrow> world \<Rightarrow>
   (error + pyval) \<times> world" where
  "send_sticker_at sub a sticker_id w =
     (case to_send_data_at sub a w of
        (Inl e, w0) \<Rightarrow> (Inl e, w0)
      | (Inr data0, w0) \<Rightarrow>
          let data1 = payload_set ''action_type'' (PStr ''ma-type:user-generated-message'') data0;
              data2 = payload_set ''sticker_id'' (PStr sticker_id) data1
          in session_call (SendRequest (session (threads w0 ! a)) data2) w0)"

definition send_location_current_at ::
  "(nat \<Rightarrow> world \<Rightarrow> (error + payload) \<times> world) \<Rightarrow> nat \<Rightarrow> bool \<Rightarrow> pyval \<Rightarrow> pyval \<Rightarrow> world \<Rightarrow>
   (error + pyval) \<times> world" where
  "send_location_current_at sub a current latitude longitude w =
     (case to_send_data_at sub a w of
        (Inl e, w0) \<Rightarrow> (Inl e, w0)
      | (Inr data0, w0) \<Rightarrow>
          let data1 = payload_set ''action_type'' (PStr ''ma-type:user-generated-message'') data0;
              data2 = payload_set ''location_attachment[coordinates][latitude]'' latitude data1;
              data3 = payload_set ''location_attachment[coordinates][longitude]'' longitude data2;
              data4 = payload_set ''location_attachment[is_current_location]'' (PBool current) data3
          in session_call (SendRequest (session (threads w0 ! a)) data4) w0)"

definition send_location_at ::
  "(nat \<Rightarrow> world \<Rightarrow> (error + payload) \<times> world) \<Rightarrow> nat \<Rightarrow> pyval \<Rightarrow> pyval \<Rightarrow> world \<Rightarrow>
   (error + unit) \<times> world" where
  "send_location_at sub a latitude longitude w =
     (case send_location_current_at sub a True latitude longitude w of
        (Inl e, w') \<Rightarrow> (Inl e, w')
      | (Inr _, w') \<Rightarrow> (Inr (), w'))"

definition send_pinned_location_at ::
  "(nat \<Rightarrow> world \<Rightarrow> (error + payload) \<times> world) \<Rightarrow> nat \<Rightarrow> pyval \<Rightarrow> pyval \<Rightarrow> world \<Rightarrow>
   (error + unit) \<times> world" where
  "send_pinned_location_at sub a latitude longitude w =
     (case send_location_current_at sub a False latitude longitude w of
        (Inl e, w') \<Rightarrow> (Inl e, w')
      | (Inr _, w') \<Rightarrow> (Inr (), w'))"

definition send_files_at ::
  "(nat \<Rightarrow> world \<Rightarrow> (error + payload) \<times> world) \<Rightarrow> ('m \<Rightarrow> nat \<Rightarrow> payload) \<Rightarrow> (string \<Rightarrow> string) \<Rightarrow>
   nat \<Rightarrow> (string \<times> string) list \<Rightarrow> world \<Rightarrow> (error + pyval) \<times> world" where
  "send_files_at sub mention_data mimetype_to_key a files w =
     send_text_at sub mention_data mimetype_to_key a None [] files None w"

definition search_messages_at ::
  "nat \<Rightarrow> string \<Rightarrow> int \<Rightarrow> int \<Rightarrow> world \<Rightarrow> (pyval list \<times> error option) \<times> world" where
  "search_messages_at a query offset limit w =
     (let data = [(''query'', PStr query), (''snippetOffset'', PInt offset),
                  (''snippetLimit'', PInt limit), (''identifier'', PStr ''thread_fbid''),
                  (''thread_fbid'', PStr (thread_id (threads w ! a)))];
          (r, w') = session_call (PayloadPost (session (threads w ! a))
                      ''/ajax/mercury/search_snippets.php?dpr=1'' data) w
      in (case r of
            Inl e \<Rightarrow> (([], Some e), w')
          | Inr j \<Rightarrow>
              (case found_snippets (threads w' ! a) query j of
                 Inl e \<Rightarrow> (([], Some e), w')
               | Inr snippets \<Rightarrow>
                   (case py_iter snippets of
                      Inl e \<Rightarrow> (([], Some e), w')
                    | Inr items \<Rightarrow> (yield_message_ids items, w')))))"

text \<open>The loop of \<open>fetch_images\<close> on the store. A run that ends gives the attachments
  yielded, the exception that stopped it, if one did, and the store.\<close>

partial_function (option) fetch_images_loop_at ::
  "(pyval \<Rightarrow> error + 'a) \<Rightarrow> (pyval \<Rightarrow> error + 'a) \<Rightarrow> (pyval \<Rightarrow> 'a) \<Rightarrow>
   nat \<Rightarrow> payload \<Rightarrow> pyval \<Rightarrow> world \<Rightarrow> 'a list \<Rightarrow> ('a list \<times> error option \<times> world) option" where
  "fetch_images_loop_at image_from_list video_from_list attachment a data j w acc =
     (case first_edge (threads w ! a) j of
        Inl IndexError \<Rightarrow>
          (case page_info (threads w ! a) j (PStr ''has_next_page'') of
             Inl e \<Rightarrow> Some (acc, Some e, w)
           | Inr has_next \<Rightarrow>
               if truthy has_next
               then (case page_info (threads w ! a) j (PStr ''end_cursor'') of
                       Inl e \<Rightarrow> Some (acc, Some e, w)
                     | Inr cursor \<Rightarrow>
                         (let data' = payload_set ''after'' cursor data
                          in case session_call (GraphqlQueryId (session (threads w ! a))
                                                  ''515216185516880'' data') w of
                            (Inl e, w') \<Rightarrow> Some (acc, Some e, w')
                          | (Inr v, w') \<Rightarrow>
                              (case unpack1 v of
                                 Inl e \<Rightarrow> Some (acc, Some e, w')
                               | Inr j' \<Rightarrow>
                                   fetch_images_loop_at image_from_list video_from_list attachment
                                     a data' j' w' acc)))
               else Some (acc, None, w))
      | Inl e \<Rightarrow> Some (acc, Some e, w)
      | Inr i \<Rightarrow>
          (case attachment_of image_from_list video_from_list attachment i of
             Inl e \<Rightarrow> Some (acc, Some e, w)
           | Inr x \<Rightarrow>
               (case delete_first_edge (threads w ! a) j of
                  Inl e \<Rightarrow> Some (acc @ [x], Some e, w)
                | Inr j' \<Rightarrow>
                    fetch_images_loop_at image_from_list video_from_list attachment
                      a data j' w (acc @ [x]))))"

definition fetch_images_at ::
  "(pyval \<Rightarrow> error + 'a) \<Rightarrow> (pyval \<Rightarrow> error + 'a) \<Rightarrow> (pyval \<Rightarrow> 'a) \<Rightarrow>
   nat \<Rightarrow> world \<Rightarrow> ('a list \<times> error option \<times> world) option" where
  "fetch_images_at image_from_list video_from_list attachment a w =
     (let data = [(''id'', PStr (thread_id (threads w ! a))), (''first'', PInt 48)]
      in case session_call (GraphqlQueryId (session (threads w ! a)) ''515216185516880'' data) w of
        (Inl e, w') \<Rightarrow> Some ([], Some e, w')
      | (Inr v, w') \<Rightarrow>
          (case unpack1 v of
             Inl e \<Rightarrow> Some ([], Some e, w')
           | Inr j \<Rightarrow>
               fetch_images_loop_at image_from_list video_from_list attachment a data j w' []))"

definition set_nickname_at :: "nat \<Rightarrow> string \<Rightarrow> string \<Rightarrow> world \<Rightarrow> (error + unit) \<times> world" where
  "set_nickname_at a user_id nickname w =
     (let data = [(''nickname'', PStr nickname), (''participant_id'', PStr user_id),
                  (''thread_or_other_fbid'', PStr (thread_id (threads w ! a)))];
          (j, w') = session_call (PayloadPost (session (threads w ! a))
                      ''/messaging/save_thread_nickname/?source=thread_settings&dpr=1'' data) w
      in (case j of Inl e \<Rightarrow> (Inl e, w') | Inr _ \<Rightarrow> (Inr (), w')))"

definition set_color_at :: "nat \<Rightarrow> string \<Rightarrow> world \<Rightarrow> (error + unit) \<times> world" where
  "set_color_at a color w =
     (if color \<notin> set SETABLE_COLORS then (Inl ValueError, w)
      else
        let color' = (if color = DEFAULT_COLOR then [] else color);
            data = [(''color_choice'', PStr color'),
                    (''thread_or_other_fbid'', PStr (thread_id (threads w ! a)))];
            (j, w') = session_call (PayloadPost (session (threads w ! a))
                        ''/messaging/save_thread_color/?source=thread_settings&dpr=1'' data) w
        in (case j of Inl e \<Rightarrow> (Inl e, w') | Inr _ \<Rightarrow> (Inr (), w')))"

definition set_emoji_at :: "nat \<Rightarrow> string \<Rightarrow> world \<Rightarrow> (error + unit) \<times> world" where
  "set_emoji_at a emoji w =
     (let data = [(''emoji_choice'', PStr emoji),
                  (''thread_or_other_fbid'', PStr (thread_id (threads w ! a)))];
          (j, w') = session_call (PayloadPost (session (threads w ! a))
                      ''/messaging/save_thread_emoji/?source=thread_settings&dpr=1'' data) w
      in (case j of Inl e \<Rightarrow> (Inl e, w') | Inr _ \<Rightarrow> (Inr (), w')))"

definition forward_attachment_at :: "nat \<Rightarrow> pyval \<Rightarrow> string \<Rightarrow> world \<Rightarrow> (error + unit) \<times> world" where
  "forward_attachment_at a attachment_id otid w =
     (let data = payload_set (''recipient_map['' @ otid @ '']'') (PStr (thread_id (threads w ! a)))
                   [(''attachment_id'', attachment_id)];
          (r, w') = session_call (PayloadPost (session (threads w ! a))
                      ''/mercury/attachments/forward/'' data) w
      in (case r of
            Inl e \<Rightarrow> (Inl e, w')
          | Inr j \<Rightarrow>
              (case py_get j (PStr ''success'') of
                 Inl e \<Rightarrow> (Inl e, w')
               | Inr ok \<Rightarrow>
                   if truthy ok then (Inr (), w')
                   else (case py_getitem j (PStr ''error'') of
                           Inl e \<Rightarrow> (Inl e, w')
                         | Inr msg \<Rightarrow> (Inl (FBchatFacebookError msg msg), w')))))"

definition set_typing_at :: "nat \<Rightarrow> bool \<Rightarrow> world \<Rightarrow> (error + unit) \<times> world" where
  "set_typing_at a typing w =
     (let data = [(''typ'', PStr (if typing then ''1'' else ''0'')),
                  (''thread'', PStr (thread_id (threads w ! a))), (''source'', PStr ''mercury-chat'')];
          (j, w') = session_call (PayloadPost (session (threads w ! a))
                      ''/ajax/messaging/typ.php'' data) w
      in (case j of Inl e \<Rightarrow> (Inl e, w') | Inr _ \<Rightarrow> (Inr (), w')))"

definition start_typing_at :: "nat \<Rightarrow> world \<Rightarrow> (error + unit) \<times> world" where
  "start_typing_at a w = set_typing_at a True w"

definition stop_typing_at :: "nat \<Rightarrow> world \<Rightarrow> (error + unit) \<times> world" where
  "stop_typing_at a w = set_typing_at a False w"

text \<open>\<open>create_plan\<close> hands its receiver to \<^verbatim>\<open>Plan._create\<close>.\<close>

definition create_plan_at ::
  "(nat \<Rightarrow> string \<Rightarrow> 'dt \<Rightarrow> string option \<Rightarrow> string option \<Rightarrow> world \<Rightarrow> (error + 'p) \<times> world) \<Rightarrow>
   nat \<Rightarrow> string \<Rightarrow> 'dt \<Rightarrow> string option \<Rightarrow> string option \<Rightarrow> world \<Rightarrow> (error + 'p) \<times> world" where
  "create_plan_at plan_create a name at location_name location_id w =
     plan_create a name at location_name location_id w"

definition create_poll_at ::
  "nat \<Rightarrow> string \<Rightarrow> (string \<times> bool) list \<Rightarrow> world \<Rightarrow> (error + unit) \<times> world" where
  "create_poll_at a question options w =
     (let data = poll_options 0 options
                   [(''question_text'', PStr question),
                    (''target_id'', PStr (thread_id (threads w ! a)))];
          (r, w') = session_call (PayloadPost (session (threads w ! a))
                      ''/messaging/group_polling/create_poll/?dpr=1'' data) w
      in (case r of
            Inl e \<Rightarrow> (Inl e, w')
          | Inr j \<Rightarrow>
              (case py_get j (PStr ''status'') of
                 Inl e \<Rightarrow> (Inl e, w')
               | Inr status \<Rightarrow>
                   if \<not> py_eq status (PStr ''success'')
                   then (case py_get j (PStr ''errorTitle'') of
                           Inl e \<Rightarrow> (Inl e, w')
                         | Inr title \<Rightarrow>
                             (case py_get j (PStr ''errorMessage'') of
                                Inl e \<Rightarrow> (Inl e, w')
                              | Inr msg \<Rightarrow> (Inl (FBchatFacebookError title msg), w')))
                   else (Inr (), w'))))"

definition mute_at ::
  "(timedelta \<Rightarrow> int) \<Rightarrow> nat \<Rightarrow> timedelta option \<Rightarrow> world \<Rightarrow> (error + unit) \<times> world" where
  "mute_at timedelta_to_seconds a duration w =
     (let setting = (case duration of
                       None \<Rightarrow> ''-1''
                     | Some d \<Rightarrow> str_int (timedelta_to_seconds d));
          data = [(''mute_settings'', PStr setting),
                  (''thread_fbid'', PStr (thread_id (threads w ! a)))];
          (j, w') = session_call (PayloadPost (session (threads w ! a))
                      ''/ajax/mercury/change_mute_thread.php?dpr=1'' data) w
      in (case j of Inl e \<Rightarrow> (Inl e, w') | Inr _ \<Rightarrow> (Inr (), w')))"

definition unmute_at :: "(timedelta \<Rightarrow> int) \<Rightarrow> nat \<Rightarrow> world \<Rightarrow> (error + unit) \<times> world" where
  "unmute_at timedelta_to_seconds a w = mute_at timedelta_to_seconds a (Some (timedelta_days 0)) w"

definition mute_reactions_mode_at :: "nat \<Rightarrow> bool \<Rightarrow> world \<Rightarrow> (error + unit) \<times> world" where
  "mute_reactions_mode_at a mode w =
     (let data = [(''reactions_mute_mode'', PStr (if mode then ''1'' else ''0'')),
                  (''thread_fbid'', PStr (thread_id (threads w ! a)))];
          (j, w') = session_call (PayloadPost (session (threads w ! a))
                      ''/ajax/mercury/change_reactions_mute_thread/?dpr=1'' data) w
      in (case j of Inl e \<Rightarrow> (Inl e, w') | Inr _ \<Rightarrow> (Inr (), w')))"

definition mute_reactions_at :: "nat \<Rightarrow> world \<Rightarrow> (error + unit) \<times> world" where
  "mute_reactions_at a w = mute_reactions_mode_at a True w"

definition unmute_reactions_at :: "nat \<Rightarrow> world \<Rightarrow> (error + unit) \<times> world" where
  "unmute_reactions_at a w = mute_reactions_mode_at a False w"

definition mute_mentions_mode_at :: "nat \<Rightarrow> bool \<Rightarrow> world \<Rightarrow> (error + unit) \<times> world" where
  "mute_mentions_mode_at a mode w =
     (let data = [(''mentions_mute_mode'', PStr (if mode then ''1'' else ''0'')),
                  (''thread_fbid'', PStr (thread_id (threads w ! a)))];
          (j, w') = session_call (PayloadPost (session (threads w ! a))
                      ''/ajax/mercury/change_mentions_mute_thread/?dpr=1'' data) w
      in (case j of Inl e \<Rightarrow> (Inl e, w') | Inr _ \<Rightarrow> (Inr (), w')))"

definition mute_mentions_at :: "nat \<Rightarrow> world \<Rightarrow> (error + unit) \<times> world" where
  "mute_mentions_at a w = mute_mentions_mode_at a True w"

definition unmute_mentions_at :: "nat \<Rightarrow> world \<Rightarrow> (error + unit) \<times> world" where
  "unmute_mentions_at a w = mute_mentions_mode_at a False w"

definition mark_as_spam_at :: "nat \<Rightarrow> world \<Rightarrow> (error + unit) \<times> world" where
  "mark_as_spam_at a w =
     (let data = [(''id'', PStr (thread_id (threads w ! a)))];
          (j, w') = session_call (PayloadPost (session (threads w ! a))
                      ''/ajax/mercury/mark_spam.php?dpr=1'' data) w
      in (case j of Inl e \<Rightarrow> (Inl e, w') | Inr _ \<Rightarrow> (Inr (), w')))"

definition forced_fetch_at :: "nat \<Rightarrow> string \<Rightarrow> world \<Rightarrow> (error + pyval) \<times> world" where
  "forced_fetch_at a message_id w =
     (let params = [(''thread_and_message_id'',
                     PDict [(PStr ''thread_id'', PStr (thread_id (threads w ! a))),
                            (PStr ''message_id'', PStr message_id)])]
      in case session_call (GraphqlDocId (session (threads w ! a)) ''1768656253222505'' params) w of
        (Inl e, w') \<Rightarrow> (Inl e, w')
      | (Inr v, w') \<Rightarrow> (unpack1 v, w'))"

subsection \<open>Fetching messages\<close>

text \<open>\<^verbatim>\<open>self.__class__(session=..., id=...)\<close>: a new object of the receiver's class. The
  identifier is already a string, which the converter leaves as it is. The classes
  outside the module are taken to build their objects from the two arguments as
  \<open>Thread\<close> does.\<close>

definition new_thread :: "thread_class \<Rightarrow> sref \<Rightarrow> string \<Rightarrow> thread" where
  "new_thread c s i = \<lparr>cls = c, session = s, thread_id = py_str (IdStr i)\<rparr>"

text \<open>The list comprehension of \<open>fetch_messages\<close>: it stops at the first exception.\<close>

fun messages_from_graphql ::
  "(nat \<Rightarrow> pyval \<Rightarrow> pyval \<Rightarrow> error + 'msg) \<Rightarrow> nat \<Rightarrow> pyval \<Rightarrow> pyval list \<Rightarrow> error + 'msg list" where
  "messages_from_graphql from_graphql t read_receipts [] = Inr []"
| "messages_from_graphql from_graphql t read_receipts (message # rest) =
     (case from_graphql t message read_receipts of
        Inl e \<Rightarrow> Inl e
      | Inr x \<Rightarrow>
          (case messages_from_graphql from_graphql t read_receipts rest of
             Inl e \<Rightarrow> Inl e
           | Inr xs \<Rightarrow> Inr (x # xs)))"

definition item3 :: "pyval \<Rightarrow> string \<Rightarrow> string \<Rightarrow> string \<Rightarrow> error + pyval" where
  "item3 j a b c =
     (case py_getitem j (PStr a) of
        Inl e \<Rightarrow> Inl e
      | Inr x \<Rightarrow>
          (case py_getitem x (PStr b) of
             Inl e \<Rightarrow> Inl e
           | Inr y \<Rightarrow> py_getitem y (PStr c)))"

text \<open>
  \<open>fetch_messages\<close> builds a thread object of its own and hands that one, by its address,
  to \<^verbatim>\<open>MessageData._from_graphql\<close>. That class method and \<^verbatim>\<open>_util.datetime_to_millis\<close> are
  outside the module and are arguments.
\<close>

definition fetch_messages ::
  "('dt \<Rightarrow> int) \<Rightarrow> (nat \<Rightarrow> pyval \<Rightarrow> pyval \<Rightarrow> error + 'msg) \<Rightarrow>
   nat \<Rightarrow> int \<Rightarrow> 'dt option \<Rightarrow> world \<Rightarrow> (error + 'msg list) \<times> world" where
  "fetch_messages datetime_to_millis from_graphql a limit before w =
     (let self = threads w ! a;
          params = [(''id'', PStr (thread_id self)), (''message_limit'', PInt limit),
                    (''load_messages'', PBool True), (''load_read_receipts'', PBool True),
                    (''before'', (case before of
                                    None \<Rightarrow> PNone
                                  | Some t \<Rightarrow> PInt (datetime_to_millis t)))]
      in case perform (GraphqlDocId (session self) ''1860982147341344'' params) (net_of w) of
        (Inl e, n') \<Rightarrow> (Inl e, w\<lparr>net_of := n'\<rparr>)
      | (Inr v, n') \<Rightarrow>
          (case unpack1 v of
             Inl e \<Rightarrow> (Inl e, w\<lparr>net_of := n'\<rparr>)
           | Inr j \<Rightarrow>
               (case py_get j (PStr ''message_thread'') of
                  Inl e \<Rightarrow> (Inl e, w\<lparr>net_of := n'\<rparr>)
                | Inr mt \<Rightarrow>
                    if mt = PNone then (Inl FBchatException, w\<lparr>net_of := n'\<rparr>)
                    else (case item3 j ''message_thread'' ''read_receipts'' ''nodes'' of
                            Inl e \<Rightarrow> (Inl e, w\<lparr>net_of := n'\<rparr>)
                          | Inr read_receipts \<Rightarrow>
                              (let t = length (threads w);
                                   w' = w\<lparr>threads := threads w @
                                           [new_thread (cls self) (session self) (thread_id self)],
                                         net_of := n'\<rparr>
                               in case item3 j ''message_thread'' ''messages'' ''nodes'' of
                                 Inl e \<Rightarrow> (Inl e, w')
                               | Inr nodes \<Rightarrow>
                                   (case py_iter nodes of
                                      Inl e \<Rightarrow> (Inl e, w')
                                    | Inr ms \<Rightarrow>
                                        (case messages_from_graphql from_graphql t read_receipts ms of
                                           Inl e \<Rightarrow> (Inl e, w')
                                         | Inr xs \<Rightarrow> (Inr (rev xs), w'))))))))"

section \<open>Definitions that follow the specification\<close>

text \<open>The server's encoding of a colour, as the specification describes it: \<open>FF\<close>, then
  the colour without its leading \<open>#\<close>, in upper case. The colours are ASCII strings.\<close>

definition upper_ascii :: "string \<Rightarrow> string" where
  "upper_ascii s =
     map (\<lambda>c. let n = of_char c :: nat
              in if 97 \<le> n \<and> n \<le> 122 then char_of (n - 32) else c) s"

definition server_encoding :: "string \<Rightarrow> string" where
  "server_encoding c = ''FF'' @ upper_ascii (tl c)"

text \<open>The payload of \<open>create_poll\<close> as the specification describes it: after the
  question and the target, the two entries of each option, in the order of the
  options.\<close>

fun poll_entries :: "nat \<Rightarrow> (string \<times> bool) list \<Rightarrow> payload" where
  "poll_entries i [] = []"
| "poll_entries i ((option_text, vote) # rest) =
     [(option_text_key i, PStr option_text),
      (option_is_selected_key i, PStr (if vote then ''1'' else ''0''))]
     @ poll_entries (Suc i) rest"

definition poll_request :: "thread \<Rightarrow> string \<Rightarrow> (string \<times> bool) list \<Rightarrow> request" where
  "poll_request self question options =
     PayloadPost (session self) ''/messaging/group_polling/create_poll/?dpr=1''
       ([(''question_text'', PStr question), (''target_id'', PStr (thread_id self))]
        @ poll_entries 0 options)"

text \<open>The request of \<open>search_messages\<close> as the specification describes it.\<close>

definition search_request :: "thread \<Rightarrow> string \<Rightarrow> int \<Rightarrow> int \<Rightarrow> request" where
  "search_request self query offset limit =
     PayloadPost (session self) ''/ajax/mercury/search_snippets.php?dpr=1''
       [(''query'', PStr query), (''snippetOffset'', PInt offset), (''snippetLimit'', PInt limit),
        (''identifier'', PStr ''thread_fbid''), (''thread_fbid'', PStr (thread_id self))]"

text \<open>What the specification says of \<open>_parse_customization_info\<close>. \<open>field x k\<close> is
  \<^verbatim>\<open>x.get(k)\<close> of a mapping. The data mark a group thread when \<open>thread_type\<close> is \<open>GROUP\<close>,
  when \<open>is_group_thread\<close> is truthy, or when \<open>thread_key\<close> is a mapping with a truthy
  \<open>thread_fbid\<close>. For a thread with one other user, the key of an entry is \<open>nickname\<close>
  when its participant is the other user and \<open>own_nickname\<close> otherwise. In a group, the
  nickname of a participant is the one of the last entry for that participant.\<close>

definition field :: "pyval \<Rightarrow> string \<Rightarrow> pyval" where
  "field x k = (case py_get x (PStr k) of Inl _ \<Rightarrow> PNone | Inr v \<Rightarrow> v)"


definition nickname_key :: "pyval \<Rightarrow> pyval \<Rightarrow> string" where
  "nickname_key user_id k =
     (if py_eq (field k ''participant_id'') user_id then ''nickname'' else ''own_nickname'')"





text \<open>
  A run of \<open>fetch_images\<close> against a transport that serves one page after the other.
  \<open>page_ok\<close>: the page has a list of edges, each of which gives an attachment.
  \<open>served ... j js\<close>: the current page is \<open>j\<close>; every page but the last has a truthy
  \<open>has_next_page\<close>, and the transport answers the follow-up request, whose \<open>after\<close> is
  that page's \<open>end_cursor\<close>, with the next page of \<open>js\<close>; the last page has a
  \<open>has_next_page\<close> that is not truthy. \<open>page_queries\<close> are the follow-up requests and
  \<open>page_yields\<close> the attachments of a page's edges, in order.
\<close>

definition image_query :: "thread \<Rightarrow> payload \<Rightarrow> request" where
  "image_query self data = GraphqlQueryId (session self) ''515216185516880'' data"

definition page_edges :: "thread \<Rightarrow> pyval \<Rightarrow> pyval list" where
  "page_edges self j = (case media_edges self j of Inr (PList es) \<Rightarrow> es | _ \<Rightarrow> [])"

definition page_ok ::
  "(pyval \<Rightarrow> error + 'a) \<Rightarrow> (pyval \<Rightarrow> error + 'a) \<Rightarrow> (pyval \<Rightarrow> 'a) \<Rightarrow> thread \<Rightarrow> pyval \<Rightarrow> bool" where
  "page_ok img vid att self j \<longleftrightarrow>
     (case media_edges self j of
        Inr (PList es) \<Rightarrow> list_all (\<lambda>e. \<not> isl (attachment_of img vid att e)) es
      | _ \<Rightarrow> False)"

definition page_yields ::
  "(pyval \<Rightarrow> error + 'a) \<Rightarrow> (pyval \<Rightarrow> error + 'a) \<Rightarrow> (pyval \<Rightarrow> 'a) \<Rightarrow> thread \<Rightarrow> pyval \<Rightarrow> 'a list" where
  "page_yields img vid att self j = map (\<lambda>e. projr (attachment_of img vid att e)) (page_edges self j)"

definition has_next_page :: "thread \<Rightarrow> pyval \<Rightarrow> bool" where
  "has_next_page self j \<longleftrightarrow>
     (case page_info self j (PStr ''has_next_page'') of Inl _ \<Rightarrow> False | Inr h \<Rightarrow> truthy h)"

definition last_page :: "thread \<Rightarrow> pyval \<Rightarrow> bool" where
  "last_page self j \<longleftrightarrow>
     (case page_info self j (PStr ''has_next_page'') of Inl _ \<Rightarrow> False | Inr h \<Rightarrow> \<not> truthy h)"

fun served ::
  "(pyval \<Rightarrow> error + 'a) \<Rightarrow> (pyval \<Rightarrow> error + 'a) \<Rightarrow> (pyval \<Rightarrow> 'a) \<Rightarrow> thread \<Rightarrow>
   (request list \<Rightarrow> string + pyval) \<Rightarrow> request list \<Rightarrow> payload \<Rightarrow> pyval \<Rightarrow> pyval list \<Rightarrow> bool" where
  "served img vid att self rsp lg data j [] \<longleftrightarrow> page_ok img vid att self j \<and> last_page self j"
| "served img vid att self rsp lg data j (j' # js) \<longleftrightarrow>
     page_ok img vid att self j \<and> has_next_page self j \<and>
     (case page_info self j (PStr ''end_cursor'') of
        Inl _ \<Rightarrow> False
      | Inr c \<Rightarrow>
          (let data' = payload_set ''after'' c data;
               lg' = lg @ [image_query self data']
           in rsp lg' = Inr (PList [j']) \<and> served img vid att self rsp lg' data' j' js))"

fun page_queries :: "thread \<Rightarrow> payload \<Rightarrow> pyval \<Rightarrow> pyval list \<Rightarrow> request list" where
  "page_queries self data j [] = []"
| "page_queries self data j (j' # js) =
     (case page_info self j (PStr ''end_cursor'') of
        Inl _ \<Rightarrow> []
      | Inr c \<Rightarrow>
          (let data' = payload_set ''after'' c data
           in image_query self data' # page_queries self data' j' js))"


text \<open>The invariant of the specification, \<open>thread id is a non-empty string\<close>, for every
  thread object of the store.\<close>

definition ids_nonempty :: "world \<Rightarrow> bool" where
  "ids_nonempty w \<longleftrightarrow> (\<forall>t \<in> set (threads w). thread_id t \<noteq> [])"

section \<open>Auxiliary notions for the proofs\<close>

text \<open>The number that a string of decimal digits stands for.\<close>

definition digits_value :: "string \<Rightarrow> nat" where
  "digits_value s = foldl (\<lambda>a c. 10 * a + (of_char c - 48)) 0 s"

text \<open>No key of the payload is a key of an option with index \<open>i\<close> or more.\<close>

definition no_option_keys :: "nat \<Rightarrow> payload \<Rightarrow> bool" where
  "no_option_keys i data =
     (\<forall>k \<in> fst ` set data. \<forall>j \<ge> i. k \<noteq> option_text_key j \<and> k \<noteq> option_is_selected_key j)"

text \<open>A page without edges that announces a next page, and a transport that serves
  nothing else.\<close>

definition more_page :: "string \<Rightarrow> pyval" where
  "more_page tid =
     PDict [(PStr tid,
       PDict [(PStr ''message_shared_media'',
         PDict [(PStr ''edges'', PList []),
                (PStr ''page_info'',
                 PDict [(PStr ''has_next_page'', PBool True), (PStr ''end_cursor'', PStr ''c'')])])])]"

definition endless :: "thread \<Rightarrow> pyval \<Rightarrow> net \<Rightarrow> bool" where
  "endless self j n \<longleftrightarrow>
     j = more_page (thread_id self) \<and> respond n = (\<lambda>_. Inr (PList [more_page (thread_id self)]))"

text \<open>A function of the receiver's value and the session's state, run on the object at
  an address: only the state of the session is written back. The methods on the store
  are compared with the methods on values through it.\<close>

definition on_value :: "(thread \<Rightarrow> net \<Rightarrow> 'r \<times> net) \<Rightarrow> nat \<Rightarrow> world \<Rightarrow> 'r \<times> world" where
  "on_value m a w = (case m (threads w ! a) (net_of w) of (r, n') \<Rightarrow> (r, w\<lparr>net_of := n'\<rparr>))"

section \<open>Sample inputs\<close>

definition raw_thread :: thread where
  "raw_thread = Thread 0 (IdInt 1234)"

definition quiet_net :: net where
  "quiet_net = \<lparr>respond = (\<lambda>_. Inr PNone), log = []\<rparr>"

definition some_thread :: thread where
  "some_thread = \<lparr>cls = UserClass, session = 0, thread_id = ''1234''\<rparr>"


text \<open>A session whose transport answers every call with the same value.\<close>

definition fixed_net :: "pyval \<Rightarrow> net" where
  "fixed_net j = \<lparr>respond = (\<lambda>_. Inr j), log = []\<rparr>"

definition found_two :: pyval where
  "found_two =
     PDict [(PStr ''search_snippets'',
       PDict [(PStr ''hello'',
         PDict [(PStr ''1234'',
           PDict [(PStr ''snippets'',
             PList [PDict [(PStr ''message_id'', PStr ''mid.1'')],
                    PDict [(PStr ''message_id'', PStr ''mid.2'')]])]),
                (PStr ''555'', PDict [])])])]"





datatype sample_attachment = ImageAttachment pyval | VideoAttachment pyval | Attachment pyval

definition media_edge :: "string \<Rightarrow> string \<Rightarrow> pyval" where
  "media_edge typename a =
     PDict [(PStr ''node'',
             PDict [(PStr ''__typename'', PStr typename), (PStr ''legacy_attachment_id'', PStr a)])]"

definition media_page :: "string \<Rightarrow> pyval list \<Rightarrow> pyval \<Rightarrow> pyval \<Rightarrow> pyval" where
  "media_page tid es has_next cursor =
     PDict [(PStr tid,
       PDict [(PStr ''message_shared_media'',
         PDict [(PStr ''edges'', PList es),
                (PStr ''page_info'',
                 PDict [(PStr ''has_next_page'', has_next), (PStr ''end_cursor'', cursor)])])])]"

definition page_one :: pyval where
  "page_one = media_page ''1234'' [media_edge ''MessageImage'' ''a1'', media_edge ''MessageVideo'' ''a2'']
                (PBool True) (PStr ''cur1'')"

definition page_two :: pyval where
  "page_two = media_page ''1234'' [media_edge ''MessageFile'' ''a3''] (PBool False) PNone"

definition media_net :: net where
  "media_net =
     \<lparr>respond = (\<lambda>lg. if length lg = 1 then Inr (PList [page_one]) else Inr (PList [page_two])),
      log = []\<rparr>"

text \<open>A transport that only serves pages without edges that announce a next page.\<close>

definition endless_net :: net where
  "endless_net = \<lparr>respond = (\<lambda>_. Inr (PList [more_page ''1234''])), log = []\<rparr>"

text \<open>A store with one thread, and a response of \<open>fetch_messages\<close> with two messages.\<close>

definition one_thread_world :: "net \<Rightarrow> world" where
  "one_thread_world n = \<lparr>threads = [some_thread], net_of = n\<rparr>"

definition two_messages :: pyval where
  "two_messages =
     PList [PDict [(PStr ''message_thread'',
       PDict [(PStr ''read_receipts'', PDict [(PStr ''nodes'', PList [])]),
              (PStr ''messages'',
               PDict [(PStr ''nodes'', PList [PStr ''older'', PStr ''newer''])])])]]"

text \<open>A \<^verbatim>\<open>_to_send_data\<close> of a subclass that names the receiver as the other user, and a
  \<^verbatim>\<open>Plan._create\<close> that gives back the name; neither touches the store.\<close>

definition user_send_data :: "nat \<Rightarrow> world \<Rightarrow> (error + payload) \<times> world" where
  "user_send_data a w = (Inr [(''other_user_fbid'', PStr (thread_id (threads w ! a)))], w)"

definition named_plan ::
  "nat \<Rightarrow> string \<Rightarrow> int \<Rightarrow> string option \<Rightarrow> string option \<Rightarrow> world \<Rightarrow> (error + string) \<times> world" where
  "named_plan a name at location_name location_id w = (Inr name, w)"

text \<open>An operation that the module does not have: it assigns to the \<open>id\<close> of its
  receiver.\<close>

definition rename_at :: "nat \<Rightarrow> string \<Rightarrow> world \<Rightarrow> (error + unit) \<times> world" where
  "rename_at a i w = (Inr (), w\<lparr>threads := (threads w)[a := (threads w ! a)\<lparr>thread_id := i\<rparr>]\<rparr>)"

section \<open>Properties\<close>

lemma char_of_nat_eq: "char_of (n::nat) = c \<longleftrightarrow> n mod 256 = of_char c"
  by (simp add: char_of_eq_iff take_bit_eq_mod)

subsection \<open>Claim C1: the colour allow-list\<close>

text \<open>
  Claim C1. \<open>SETABLE_COLORS\<close> lists 20 different colours. For every string \<open>color\<close>,
  \<open>set_color\<close> raises \<open>ValueError\<close> exactly when \<open>color\<close> is not in the list, and then
  nothing is posted. When \<open>color\<close> is in the list, one payload is posted through the
  thread's session, whose \<open>color_choice\<close> is the empty string for the default colour
  \<open>#0084ff\<close> and \<open>color\<close> itself otherwise.
\<close>

theorem set_color_spec:
  "length SETABLE_COLORS = 20 \<and> distinct SETABLE_COLORS \<and>
   (fst (set_color self color n) = Inl ValueError \<longleftrightarrow> color \<notin> set SETABLE_COLORS) \<and>
   (color \<notin> set SETABLE_COLORS \<longrightarrow> snd (set_color self color n) = n) \<and>
   (color \<in> set SETABLE_COLORS \<longrightarrow>
      log (snd (set_color self color n)) =
        log n @ [PayloadPost (session self)
          ''/messaging/save_thread_color/?source=thread_settings&dpr=1''
          [(''color_choice'', PStr (if color = ''#0084ff'' then [] else color)),
           (''thread_or_other_fbid'', PStr (thread_id self))]])"
proof -
  have len: "length SETABLE_COLORS = 20" and dist: "distinct SETABLE_COLORS"
    by (simp_all add: SETABLE_COLORS_def DEFAULT_COLOR_def)
  have bad: "color \<notin> set SETABLE_COLORS \<Longrightarrow> set_color self color n = (Inl ValueError, n)"
    by (simp add: set_color_def)
  have good_err: "color \<in> set SETABLE_COLORS \<Longrightarrow> fst (set_color self color n) \<noteq> Inl ValueError"
    by (auto simp: set_color_def perform_def Let_def split: sum.splits prod.splits)
  have good_log: "color \<in> set SETABLE_COLORS \<Longrightarrow>
      log (snd (set_color self color n)) =
        log n @ [PayloadPost (session self)
          ''/messaging/save_thread_color/?source=thread_settings&dpr=1''
          [(''color_choice'', PStr (if color = ''#0084ff'' then [] else color)),
           (''thread_or_other_fbid'', PStr (thread_id self))]]"
    by (auto simp: set_color_def perform_def Let_def DEFAULT_COLOR_def split: sum.splits prod.splits)
  show ?thesis using len dist bad good_err good_log by fastforce
qed

theorem set_color_spec_witness:
  "''#44bec7'' \<in> set SETABLE_COLORS \<and> ''red'' \<notin> set SETABLE_COLORS \<and>
   fst (set_color some_thread ''red'' quiet_net) = Inl ValueError \<and>
   snd (set_color some_thread ''red'' quiet_net) = quiet_net \<and>
   fst (set_color some_thread ''#44bec7'' quiet_net) = Inr () \<and>
   log (snd (set_color some_thread ''#44bec7'' quiet_net)) =
     [PayloadPost 0 ''/messaging/save_thread_color/?source=thread_settings&dpr=1''
        [(''color_choice'', PStr ''#44bec7''), (''thread_or_other_fbid'', PStr ''1234'')]] \<and>
   log (snd (set_color some_thread ''#0084ff'' quiet_net)) =
     [PayloadPost 0 ''/messaging/save_thread_color/?source=thread_settings&dpr=1''
        [(''color_choice'', PStr []), (''thread_or_other_fbid'', PStr ''1234'')]]"
proof -
  have a: "''#44bec7'' \<in> set SETABLE_COLORS" and b: "''red'' \<notin> set SETABLE_COLORS"
    and c: "''#0084ff'' \<in> set SETABLE_COLORS"
    by (simp_all add: SETABLE_COLORS_def DEFAULT_COLOR_def)
  have ok: "fst (set_color some_thread ''#44bec7'' quiet_net) = Inr ()"
    using a by (simp add: set_color_def perform_def quiet_net_def Let_def)
  show ?thesis
    using a b c ok
      set_color_spec [of some_thread "''red''" quiet_net]
      set_color_spec [of some_thread "''#44bec7''" quiet_net]
      set_color_spec [of some_thread "''#0084ff''" quiet_net]
    by (simp add: quiet_net_def some_thread_def)
qed

subsection \<open>Claim C9: parsing a colour\<close>

lemma parse_color_roundtrip:
  "c \<in> set SETABLE_COLORS \<Longrightarrow> parse_color (PStr (server_encoding c)) = Inr c"
  unfolding SETABLE_COLORS_def DEFAULT_COLOR_def
  by (auto simp: parse_color_def server_encoding_def upper_ascii_def lower_def lower_char_def
      DEFAULT_COLOR_def Let_def char_of_nat_eq)

text \<open>
  Claim C9. \<open>parse_color\<close> returns \<open>#0084ff\<close> for \<open>None\<close> and for the empty string. For a
  non-empty string it returns \<open>#\<close> followed by the string without its first two
  characters, in lower case. So every colour of \<open>SETABLE_COLORS\<close> comes back from its
  server encoding.
\<close>

theorem parse_color_spec:
  "parse_color PNone = Inr ''#0084ff'' \<and>
   parse_color (PStr []) = Inr ''#0084ff'' \<and>
   (inp \<noteq> [] \<longrightarrow> parse_color (PStr inp) = Inr (CHR ''#'' # lower (drop 2 inp))) \<and>
   (\<forall>c \<in> set SETABLE_COLORS. parse_color (PStr (server_encoding c)) = Inr c)"
  using parse_color_roundtrip by (simp add: parse_color_def DEFAULT_COLOR_def)

theorem parse_color_spec_witness:
  "''FF44BEC7'' \<noteq> [] \<and> parse_color (PStr ''FF44BEC7'') = Inr ''#44bec7'' \<and>
   ''#44bec7'' \<in> set SETABLE_COLORS \<and> server_encoding ''#44bec7'' = ''FF44BEC7'' \<and>
   parse_color (PStr (server_encoding ''#44bec7'')) = Inr ''#44bec7''"
proof -
  have a: "''#44bec7'' \<in> set SETABLE_COLORS"
    by (simp add: SETABLE_COLORS_def)
  have b: "server_encoding ''#44bec7'' = ''FF44BEC7''"
    by (simp add: server_encoding_def upper_ascii_def char_of_nat_eq)
  have c: "CHR ''#'' # lower (drop 2 ''FF44BEC7'') = ''#44bec7''"
    by (simp add: lower_def lower_char_def char_of_nat_eq)
  note T = parse_color_spec [of "''FF44BEC7''"]
  from T have d: "parse_color (PStr ''FF44BEC7'') = Inr (CHR ''#'' # lower (drop 2 ''FF44BEC7''))"
    by simp
  from T a have e: "parse_color (PStr (server_encoding ''#44bec7'')) = Inr ''#44bec7''"
    by blast
  from a b c d e show ?thesis by simp
qed

subsection \<open>Claim C7: muting\<close>






subsection \<open>Claim C8: sending on a raw thread\<close>

text \<open>
  Claim C8. On an object of the class \<open>Thread\<close> itself, each of \<open>wave\<close>, \<open>send_text\<close>,
  \<open>send_emoji\<close>, \<open>send_sticker\<close>, \<open>send_location\<close>, \<open>send_pinned_location\<close> and \<open>send_files\<close>
  raises \<open>NotImplementedError\<close> and leaves the session as it was: no request is made.
\<close>

theorem raw_thread_send_spec:
  assumes "cls self = ThreadClass"
  shows "wave sub self first n = (Inl NotImplementedError, n) \<and>
   send_text sub mention_data mimetype_to_key self text mentions files reply_to_id n =
     (Inl NotImplementedError, n) \<and>
   send_emoji sub self emoji size_name n = (Inl NotImplementedError, n) \<and>
   send_sticker sub self sticker_id n = (Inl NotImplementedError, n) \<and>
   send_location sub self latitude longitude n = (Inl NotImplementedError, n) \<and>
   send_pinned_location sub self latitude longitude n = (Inl NotImplementedError, n) \<and>
   send_files sub mention_data mimetype_to_key self files n = (Inl NotImplementedError, n)"
  using assms
  by (simp add: wave_def send_text_def send_emoji_def send_sticker_def send_location_def
      send_pinned_location_def send_location_current_def send_files_def to_send_data_def)

theorem raw_thread_send_spec_witness:
  "cls raw_thread = ThreadClass \<and>
   wave (\<lambda>t. Inr []) raw_thread True quiet_net = (Inl NotImplementedError, quiet_net) \<and>
   send_text (\<lambda>t. Inr []) (\<lambda>(m::nat) i. []) (\<lambda>s. s) raw_thread (Some ''hello'') [] [] None quiet_net =
     (Inl NotImplementedError, quiet_net) \<and>
   send_sticker (\<lambda>t. Inr []) raw_thread ''369239263222822'' quiet_net =
     (Inl NotImplementedError, quiet_net) \<and>
   log quiet_net = []"
proof -
  have c: "cls raw_thread = ThreadClass"
    by (simp add: raw_thread_def Thread_def)
  show ?thesis
    using c raw_thread_send_spec [OF c, of "\<lambda>t. Inr []" True quiet_net "\<lambda>(m::nat) i. []" "\<lambda>s. s"
        "Some ''hello''" "[]" "[]" None "[]" "[]" "''369239263222822''" PNone PNone]
    by (simp add: quiet_net_def)
qed

subsection \<open>Claim C3: creating a poll\<close>

lemma digits_value_str_nat: "digits_value (str_nat n) = n"
proof (induction n rule: str_nat.induct)
  case (1 n)
  show ?case
  proof (cases "n < 10")
    case True
    then show ?thesis
      by (simp add: str_nat.simps [of n] digits_value_def)
  next
    case False
    have "n mod 10 < 10" by simp
    then have d: "of_char (char_of (48 + n mod 10)) = 48 + n mod 10"
      by simp
    from False 1 have "digits_value (str_nat (n div 10)) = n div 10" by simp
    with False d show ?thesis
      by (simp add: str_nat.simps [of n] digits_value_def)
  qed
qed

lemma str_nat_inj: "str_nat a = str_nat b \<Longrightarrow> a = b"
  by (metis digits_value_str_nat)

lemma option_keys_eq:
  "option_text_key i = option_text_key j \<longleftrightarrow> i = j"
  "option_is_selected_key i = option_is_selected_key j \<longleftrightarrow> i = j"
  "option_text_key i \<noteq> option_is_selected_key j"
  "option_is_selected_key i \<noteq> option_text_key j"
  by (auto simp: option_text_key_def option_is_selected_key_def dest: str_nat_inj)

lemma option_keys_other:
  "option_text_key i \<noteq> ''question_text''" "option_text_key i \<noteq> ''target_id''"
  "option_is_selected_key i \<noteq> ''question_text''" "option_is_selected_key i \<noteq> ''target_id''"
  by (simp_all add: option_text_key_def option_is_selected_key_def)

lemma payload_set_fresh: "k \<notin> fst ` set d \<Longrightarrow> payload_set k v d = d @ [(k, v)]"
  by (induction d) auto

lemma no_option_keysD:
  "no_option_keys i data \<Longrightarrow> i \<le> j \<Longrightarrow>
     option_text_key j \<notin> fst ` set data \<and> option_is_selected_key j \<notin> fst ` set data"
  unfolding no_option_keys_def by blast

lemma no_option_keys_snoc:
  assumes "no_option_keys i data" and "i \<le> i'"
    and "\<And>j. i' \<le> j \<Longrightarrow> k \<noteq> option_text_key j \<and> k \<noteq> option_is_selected_key j"
  shows "no_option_keys i' (data @ [(k, v)])"
  unfolding no_option_keys_def
proof (intro ballI allI impI)
  fix x j assume x: "x \<in> fst ` set (data @ [(k, v)])" and j: "i' \<le> j"
  from x have "x \<in> fst ` set data \<or> x = k" by auto
  then show "x \<noteq> option_text_key j \<and> x \<noteq> option_is_selected_key j"
  proof
    assume "x \<in> fst ` set data"
    moreover have "i \<le> j" using assms(2) j by simp
    ultimately show ?thesis using no_option_keysD [OF assms(1)] by blast
  next
    assume "x = k"
    then show ?thesis using assms(3) [OF j] by simp
  qed
qed

lemma poll_options_append:
  "no_option_keys i data \<Longrightarrow> poll_options i opts data = data @ poll_entries i opts"
proof (induction opts arbitrary: i data)
  case Nil
  then show ?case by simp
next
  case (Cons o1 opts)
  obtain t v where o1: "o1 = (t, v)" by (cases o1)
  let ?d1 = "data @ [(option_text_key i, PStr t)]"
  let ?d2 = "?d1 @ [(option_is_selected_key i, PStr (if v then ''1'' else ''0''))]"
  have f1: "option_text_key i \<notin> fst ` set data"
    using no_option_keysD [OF Cons.prems, of i] by simp
  have f2: "option_is_selected_key i \<notin> fst ` set ?d1"
    using no_option_keysD [OF Cons.prems, of i] by (simp add: option_keys_eq)
  have s1: "payload_set (option_text_key i) (PStr t) data = ?d1"
    using f1 by (rule payload_set_fresh)
  have s2: "payload_set (option_is_selected_key i) (PStr (if v then ''1'' else ''0'')) ?d1 = ?d2"
    using f2 by (rule payload_set_fresh)
  have n1': "no_option_keys (Suc i) ?d1"
    using Cons.prems by (rule no_option_keys_snoc) (simp_all add: option_keys_eq)
  have pre: "no_option_keys (Suc i) ?d2"
    using n1' by (rule no_option_keys_snoc) (simp_all add: option_keys_eq)
  have "poll_options i (o1 # opts) data = poll_options (Suc i) opts ?d2"
    using s1 s2 by (simp add: o1)
  also have "\<dots> = ?d2 @ poll_entries (Suc i) opts"
    using pre by (rule Cons.IH)
  finally show ?case by (simp add: o1)
qed

lemma py_eq_PStr: "py_eq v (PStr s) \<longleftrightarrow> v = PStr s"
  by (cases v) auto

lemma create_poll_outcome:
  "log (snd (create_poll self question options n)) =
     log n @ [PayloadPost (session self) ''/messaging/group_polling/create_poll/?dpr=1''
                ([(''question_text'', PStr question), (''target_id'', PStr (thread_id self))]
                 @ poll_entries 0 options)] \<and>
   (respond n (log (snd (create_poll self question options n))) = Inr (PDict kvs) \<longrightarrow>
      (dict_lookup (PStr ''status'') kvs \<noteq> Some (PStr ''success'') \<longrightarrow>
         (\<exists>title msg. fst (create_poll self question options n) = Inl (FBchatFacebookError title msg))) \<and>
      (dict_lookup (PStr ''status'') kvs = Some (PStr ''success'') \<longrightarrow>
         fst (create_poll self question options n) = Inr ()))"
proof -
  let ?d0 = "[(''question_text'', PStr question), (''target_id'', PStr (thread_id self))]"
  have "no_option_keys 0 ?d0"
    by (simp add: no_option_keys_def option_keys_other [symmetric])
  then have data: "poll_options 0 options ?d0 = ?d0 @ poll_entries 0 options"
    by (rule poll_options_append)
  have lg: "log (snd (create_poll self question options n)) =
     log n @ [PayloadPost (session self) ''/messaging/group_polling/create_poll/?dpr=1''
                (?d0 @ poll_entries 0 options)]"
    unfolding create_poll_def data
    by (simp add: perform_def Let_def split: sum.splits prod.splits)
  have rest: "respond n (log n @ [PayloadPost (session self) ''/messaging/group_polling/create_poll/?dpr=1''
                (?d0 @ poll_entries 0 options)]) = Inr (PDict kvs) \<Longrightarrow>
      (dict_lookup (PStr ''status'') kvs \<noteq> Some (PStr ''success'') \<longrightarrow>
         (\<exists>title msg. fst (create_poll self question options n) = Inl (FBchatFacebookError title msg))) \<and>
      (dict_lookup (PStr ''status'') kvs = Some (PStr ''success'') \<longrightarrow>
         fst (create_poll self question options n) = Inr ())"
    unfolding create_poll_def data
    by (auto simp: perform_def Let_def py_get_def py_eq_PStr split: option.splits)
  show ?thesis using lg rest by simp
qed

text \<open>
  Claim C3. For every question and every list of options, \<open>create_poll\<close> posts exactly
  one request, whose payload is \<open>question_text\<close>, \<open>target_id\<close> and then, for the option
  with index \<open>i\<close>, \<open>option_text_array[i]\<close> with the option's text and
  \<open>option_is_selected_array[i]\<close> with \<open>1\<close> for a selected option and \<open>0\<close> otherwise. When
  the session answers with a mapping, \<open>create_poll\<close> raises \<open>FBchatFacebookError\<close> exactly
  when the mapping's \<open>status\<close> is not \<open>success\<close>, and returns otherwise.
\<close>

theorem create_poll_spec:
  "log (snd (create_poll self question options n)) = log n @ [poll_request self question options] \<and>
   (respond n (log n @ [poll_request self question options]) = Inr (PDict kvs) \<longrightarrow>
      ((\<exists>title msg. fst (create_poll self question options n) = Inl (FBchatFacebookError title msg))
         \<longleftrightarrow> dict_lookup (PStr ''status'') kvs \<noteq> Some (PStr ''success'')) \<and>
      (dict_lookup (PStr ''status'') kvs = Some (PStr ''success'') \<longrightarrow>
         fst (create_poll self question options n) = Inr ()))"
  using create_poll_outcome [of self question options n kvs]
  unfolding poll_request_def by auto

theorem create_poll_spec_witness:
  "poll_request some_thread ''Test poll'' [(''Option 1'', True), (''Option 2'', False)] =
     PayloadPost 0 ''/messaging/group_polling/create_poll/?dpr=1''
       [(''question_text'', PStr ''Test poll''), (''target_id'', PStr ''1234''),
        (''option_text_array[0]'', PStr ''Option 1''), (''option_is_selected_array[0]'', PStr ''1''),
        (''option_text_array[1]'', PStr ''Option 2''), (''option_is_selected_array[1]'', PStr ''0'')] \<and>
   fst (create_poll some_thread ''Test poll'' [(''Option 1'', True), (''Option 2'', False)]
          (fixed_net (PDict [(PStr ''status'', PStr ''success'')]))) = Inr () \<and>
   (\<exists>title msg.
      fst (create_poll some_thread ''Test poll'' [(''Option 1'', True), (''Option 2'', False)]
             (fixed_net (PDict [(PStr ''status'', PStr ''failure'')]))) =
        Inl (FBchatFacebookError title msg))"
proof -
  let ?opts = "[(''Option 1'', True), (''Option 2'', False)]"
  have req: "poll_request some_thread ''Test poll'' ?opts =
     PayloadPost 0 ''/messaging/group_polling/create_poll/?dpr=1''
       [(''question_text'', PStr ''Test poll''), (''target_id'', PStr ''1234''),
        (''option_text_array[0]'', PStr ''Option 1''), (''option_is_selected_array[0]'', PStr ''1''),
        (''option_text_array[1]'', PStr ''Option 2''), (''option_is_selected_array[1]'', PStr ''0'')]"
    by (simp add: poll_request_def some_thread_def option_text_key_def option_is_selected_key_def
        str_nat.simps [of 0] str_nat.simps [of "Suc 0"] char_of_nat_eq)
  have ok: "respond (fixed_net (PDict [(PStr ''status'', PStr ''success'')]))
              (log (fixed_net (PDict [(PStr ''status'', PStr ''success'')])) @
               [poll_request some_thread ''Test poll'' ?opts]) =
            Inr (PDict [(PStr ''status'', PStr ''success'')])"
    by (simp add: fixed_net_def)
  have bad: "respond (fixed_net (PDict [(PStr ''status'', PStr ''failure'')]))
              (log (fixed_net (PDict [(PStr ''status'', PStr ''failure'')])) @
               [poll_request some_thread ''Test poll'' ?opts]) =
            Inr (PDict [(PStr ''status'', PStr ''failure'')])"
    by (simp add: fixed_net_def)
  have s1: "dict_lookup (PStr ''status'') [(PStr ''status'', PStr ''success'')] = Some (PStr ''success'')"
    by simp
  have s2: "dict_lookup (PStr ''status'') [(PStr ''status'', PStr ''failure'')] \<noteq> Some (PStr ''success'')"
    by simp
  from create_poll_spec [of some_thread "''Test poll''" ?opts
      "fixed_net (PDict [(PStr ''status'', PStr ''success'')])" "[(PStr ''status'', PStr ''success'')]"]
    ok s1
  have a: "fst (create_poll some_thread ''Test poll'' ?opts
          (fixed_net (PDict [(PStr ''status'', PStr ''success'')]))) = Inr ()"
    by blast
  from create_poll_spec [of some_thread "''Test poll''" ?opts
      "fixed_net (PDict [(PStr ''status'', PStr ''failure'')])" "[(PStr ''status'', PStr ''failure'')]"]
    bad s2
  have b: "\<exists>title msg.
      fst (create_poll some_thread ''Test poll'' ?opts
             (fixed_net (PDict [(PStr ''status'', PStr ''failure'')]))) =
        Inl (FBchatFacebookError title msg)"
    by blast
  from req a b show ?thesis by blast
qed

subsection \<open>Claim C10: searching messages\<close>

lemma yield_message_ids_all:
  "list_all2 (\<lambda>s m. py_getitem s (PStr ''message_id'') = Inr m) snippets ids \<Longrightarrow>
     yield_message_ids snippets = (ids, None)"
  by (induction rule: list_all2_induct) simp_all

lemma search_messages_log:
  "log (snd (search_messages self query offset limit n)) =
     log n @ [search_request self query offset limit]"
  by (simp add: search_messages_def search_request_def perform_def Let_def
      split: sum.splits prod.splits)

lemma search_messages_found:
  assumes "respond n (log n @ [search_request self query offset limit]) = Inr j"
    and "found_snippets self query j = Inr (PList snippets)"
  shows "fst (search_messages self query offset limit n) = yield_message_ids snippets"
  using assms
  by (simp add: search_messages_def search_request_def perform_def Let_def)

text \<open>
  Claim C10. \<open>search_messages\<close> posts one request with the query, the offset and the
  limit under \<open>query\<close>, \<open>snippetOffset\<close> and \<open>snippetLimit\<close>. When the search result for
  the query is a mapping without an entry for the thread's identifier, nothing is
  yielded; the same holds for an entry that is falsy. Otherwise the \<open>message_id\<close> of
  each snippet listed under the thread's identifier is yielded, in the order of the
  response.
\<close>

theorem search_messages_spec:
  "log (snd (search_messages self query offset limit n)) =
     log n @ [search_request self query offset limit] \<and>
   (respond n (log n @ [search_request self query offset limit]) = Inr j \<and>
    py_getitem j (PStr ''search_snippets'') = Inr found \<and>
    py_getitem found (PStr query) = Inr (PDict result) \<longrightarrow>
      (dict_lookup (PStr (thread_id self)) result = None \<longrightarrow>
         fst (search_messages self query offset limit n) = ([], None)) \<and>
      (\<forall>entry. dict_lookup (PStr (thread_id self)) result = Some entry \<and> \<not> truthy entry \<longrightarrow>
         fst (search_messages self query offset limit n) = ([], None)) \<and>
      (\<forall>entry snippets ids.
         dict_lookup (PStr (thread_id self)) result = Some entry \<and> truthy entry \<and>
         py_getitem entry (PStr ''snippets'') = Inr (PList snippets) \<and>
         list_all2 (\<lambda>s m. py_getitem s (PStr ''message_id'') = Inr m) snippets ids \<longrightarrow>
         fst (search_messages self query offset limit n) = (ids, None)))"
proof -
  {
    assume r: "respond n (log n @ [search_request self query offset limit]) = Inr j"
      and f: "py_getitem j (PStr ''search_snippets'') = Inr found"
      and q: "py_getitem found (PStr query) = Inr (PDict result)"
    have none: "dict_lookup (PStr (thread_id self)) result = None \<Longrightarrow>
         fst (search_messages self query offset limit n) = ([], None)"
    proof -
      assume "dict_lookup (PStr (thread_id self)) result = None"
      then have "found_snippets self query j = Inr (PList [])"
        using f q by (simp add: found_snippets_def py_get_def)
      from search_messages_found [OF r this] show ?thesis by simp
    qed
    have falsy: "\<And>entry. dict_lookup (PStr (thread_id self)) result = Some entry \<Longrightarrow>
         \<not> truthy entry \<Longrightarrow> fst (search_messages self query offset limit n) = ([], None)"
    proof -
      fix entry
      assume "dict_lookup (PStr (thread_id self)) result = Some entry" "\<not> truthy entry"
      then have "found_snippets self query j = Inr (PList [])"
        using f q by (simp add: found_snippets_def py_get_def)
      from search_messages_found [OF r this] show "fst (search_messages self query offset limit n) = ([], None)" by simp
    qed
    have some: "\<And>entry snippets ids.
         dict_lookup (PStr (thread_id self)) result = Some entry \<Longrightarrow> truthy entry \<Longrightarrow>
         py_getitem entry (PStr ''snippets'') = Inr (PList snippets) \<Longrightarrow>
         list_all2 (\<lambda>s m. py_getitem s (PStr ''message_id'') = Inr m) snippets ids \<Longrightarrow>
         fst (search_messages self query offset limit n) = (ids, None)"
    proof -
      fix entry snippets ids
      assume e: "dict_lookup (PStr (thread_id self)) result = Some entry" "truthy entry"
        "py_getitem entry (PStr ''snippets'') = Inr (PList snippets)"
        and ids: "list_all2 (\<lambda>s m. py_getitem s (PStr ''message_id'') = Inr m) snippets ids"
      from e have "found_snippets self query j = Inr (PList snippets)"
        using f q by (simp add: found_snippets_def py_get_def)
      from search_messages_found [OF r this] yield_message_ids_all [OF ids]
      show "fst (search_messages self query offset limit n) = (ids, None)" by simp
    qed
    note none falsy some
  }
  then show ?thesis using search_messages_log by blast
qed

theorem search_messages_spec_witness:
  "fst (search_messages some_thread ''hello'' 0 5 (fixed_net found_two)) =
     ([PStr ''mid.1'', PStr ''mid.2''], None) \<and>
   fst (search_messages (some_thread\<lparr>thread_id := ''999''\<rparr>) ''hello'' 0 5 (fixed_net found_two)) =
     ([], None) \<and>
   fst (search_messages (some_thread\<lparr>thread_id := ''555''\<rparr>) ''hello'' 0 5 (fixed_net found_two)) =
     ([], None)"
proof -
  let ?entry = "PDict [(PStr ''snippets'',
             PList [PDict [(PStr ''message_id'', PStr ''mid.1'')],
                    PDict [(PStr ''message_id'', PStr ''mid.2'')]])]"
  let ?result = "[(PStr ''1234'', ?entry), (PStr ''555'', PDict [])]"
  let ?found = "PDict [(PStr ''hello'', PDict ?result)]"
  let ?snips = "[PDict [(PStr ''message_id'', PStr ''mid.1'')],
                    PDict [(PStr ''message_id'', PStr ''mid.2'')]]"
  have h1: "\<And>t. respond (fixed_net found_two) (log (fixed_net found_two) @ [search_request t ''hello'' 0 5]) = Inr found_two \<and>
    py_getitem found_two (PStr ''search_snippets'') = Inr ?found \<and>
    py_getitem ?found (PStr ''hello'') = Inr (PDict ?result)"
    by (simp add: fixed_net_def found_two_def)
  have e1: "dict_lookup (PStr (thread_id some_thread)) ?result = Some ?entry \<and> truthy ?entry \<and>
         py_getitem ?entry (PStr ''snippets'') = Inr (PList ?snips) \<and>
         list_all2 (\<lambda>s m. py_getitem s (PStr ''message_id'') = Inr m) ?snips [PStr ''mid.1'', PStr ''mid.2'']"
    by (simp add: some_thread_def)
  have e2: "dict_lookup (PStr (thread_id (some_thread\<lparr>thread_id := ''999''\<rparr>))) ?result = None"
    by simp
  have e3: "dict_lookup (PStr (thread_id (some_thread\<lparr>thread_id := ''555''\<rparr>))) ?result = Some (PDict []) \<and>
      \<not> truthy (PDict [])"
    by simp
  from search_messages_spec [of some_thread "''hello''" 0 5 "fixed_net found_two" found_two ?found ?result]
    h1 [of some_thread] e1
  have a: "fst (search_messages some_thread ''hello'' 0 5 (fixed_net found_two)) =
     ([PStr ''mid.1'', PStr ''mid.2''], None)"
    by blast
  from search_messages_spec [of "some_thread\<lparr>thread_id := ''999''\<rparr>" "''hello''" 0 5 "fixed_net found_two" found_two ?found ?result]
    h1 [of "some_thread\<lparr>thread_id := ''999''\<rparr>"] e2
  have b: "fst (search_messages (some_thread\<lparr>thread_id := ''999''\<rparr>) ''hello'' 0 5 (fixed_net found_two)) =
     ([], None)"
    by blast
  from search_messages_spec [of "some_thread\<lparr>thread_id := ''555''\<rparr>" "''hello''" 0 5 "fixed_net found_two" found_two ?found ?result]
    h1 [of "some_thread\<lparr>thread_id := ''555''\<rparr>"] e3
  have c: "fst (search_messages (some_thread\<lparr>thread_id := ''555''\<rparr>) ''hello'' 0 5 (fixed_net found_two)) =
     ([], None)"
    by blast
  from a b c show ?thesis by blast
qed

subsection \<open>Claim C5: parsing the customization info\<close>













lemma nickname_key_not_nicknames:
  "nickname_key u k \<noteq> ''nicknames''" "''nicknames'' \<noteq> nickname_key u k"
  by (simp_all add: nickname_key_def)













subsection \<open>Claim C4: fetching images\<close>

lemma py_eq_PStr_left: "py_eq (PStr s) v \<longleftrightarrow> v = PStr s"
  by (cases v) auto

lemma dict_lookup_store_str:
  "dict_lookup (PStr a) (dict_store (PStr b) v kvs) =
     (if a = b then Some v else dict_lookup (PStr a) kvs)"
  by (induction "PStr b" v kvs rule: dict_store.induct) (auto simp: py_eq_PStr_left)

lemma getitem_replace_item:
  "py_getitem x (PStr k) = Inr old \<Longrightarrow>
     py_getitem (replace_item x k v) (PStr k') = (if k' = k then Inr v else py_getitem x (PStr k'))"
  by (cases x) (auto simp: dict_lookup_store_str split: option.splits)

lemma delete_first_edge_list:
  assumes "media_edges self j = Inr (PList (e # es))"
  shows "\<exists>j'. delete_first_edge self j = Inr j' \<and> media_edges self j' = Inr (PList es) \<and>
           (\<forall>k. page_info self j' k = page_info self j k)"
proof -
  from assms obtain t m where
    t: "py_getitem j (PStr (thread_id self)) = Inr t" and
    m: "py_getitem t (PStr ''message_shared_media'') = Inr m" and
    es: "py_getitem m (PStr ''edges'') = Inr (PList (e # es))"
    by (auto simp: media_edges_def shared_media_def split: sum.splits)
  let ?m' = "replace_item m ''edges'' (PList es)"
  let ?t' = "replace_item t ''message_shared_media'' ?m'"
  let ?j' = "replace_item j (thread_id self) ?t'"
  have d: "delete_first_edge self j = Inr ?j'"
    using t m es by (simp add: delete_first_edge_def seq_index_def)
  have gj: "py_getitem ?j' (PStr (thread_id self)) = Inr ?t'"
    using getitem_replace_item [OF t] by simp
  have gt: "py_getitem ?t' (PStr ''message_shared_media'') = Inr ?m'"
    using getitem_replace_item [OF m] by simp
  have ge: "py_getitem ?m' (PStr ''edges'') = Inr (PList es)"
    using getitem_replace_item [OF es] by simp
  have gp: "py_getitem ?m' (PStr ''page_info'') = py_getitem m (PStr ''page_info'')"
    using getitem_replace_item [OF es, of "PList es" "''page_info''"] by simp
  have "media_edges self ?j' = Inr (PList es)"
    using gj gt ge by (simp add: media_edges_def shared_media_def)
  moreover have "\<forall>k. page_info self ?j' k = page_info self j k"
    using gj gt gp t m by (simp add: page_info_def shared_media_def)
  ultimately show ?thesis using d by blast
qed

lemma first_edge_cons: "media_edges self j = Inr (PList (e # es)) \<Longrightarrow> first_edge self j = Inr e"
  by (simp add: first_edge_def seq_index_def)

lemma first_edge_nil: "media_edges self j = Inr (PList []) \<Longrightarrow> first_edge self j = Inl IndexError"
  by (simp add: first_edge_def seq_index_def)

lemma loop_yield:
  assumes "media_edges self j = Inr (PList (e # es))" "attachment_of img vid att e = Inr a"
  shows "\<exists>j'. media_edges self j' = Inr (PList es) \<and>
           (\<forall>k. page_info self j' k = page_info self j k) \<and>
           fetch_images_loop img vid att self data j n acc =
             fetch_images_loop img vid att self data j' n (acc @ [a])"
proof -
  from delete_first_edge_list [OF assms(1)] obtain j' where
    j': "delete_first_edge self j = Inr j'" "media_edges self j' = Inr (PList es)"
      "\<forall>k. page_info self j' k = page_info self j k" by blast
  have "fetch_images_loop img vid att self data j n acc =
             fetch_images_loop img vid att self data j' n (acc @ [a])"
    by (subst fetch_images_loop.simps) (simp add: first_edge_cons [OF assms(1)] assms(2) j'(1))
  with j' show ?thesis by blast
qed

lemma loop_page:
  assumes "list_all2 (\<lambda>e a. attachment_of img vid att e = Inr a) es as"
    and "media_edges self j = Inr (PList es)"
  shows "\<exists>j'. media_edges self j' = Inr (PList []) \<and>
           (\<forall>k. page_info self j' k = page_info self j k) \<and>
           fetch_images_loop img vid att self data j n acc =
             fetch_images_loop img vid att self data j' n (acc @ as)"
  using assms
proof (induction arbitrary: j acc rule: list_all2_induct)
  case Nil
  then show ?case by auto
next
  case (Cons e es a as)
  from loop_yield [OF Cons.prems Cons.hyps(1), of data n acc] obtain j1 where
    j1: "media_edges self j1 = Inr (PList es)" "\<forall>k. page_info self j1 k = page_info self j k"
      "fetch_images_loop img vid att self data j n acc =
       fetch_images_loop img vid att self data j1 n (acc @ [a])" by blast
  from Cons.IH [OF j1(1), of "acc @ [a]"] obtain j' where
    j': "media_edges self j' = Inr (PList [])" "\<forall>k. page_info self j' k = page_info self j1 k"
      "fetch_images_loop img vid att self data j1 n (acc @ [a]) =
       fetch_images_loop img vid att self data j' n ((acc @ [a]) @ as)" by blast
  from j1 j' show ?case by auto
qed

lemma loop_stop:
  assumes "media_edges self j = Inr (PList [])"
    "page_info self j (PStr ''has_next_page'') = Inr h" "\<not> truthy h"
  shows "fetch_images_loop img vid att self data j n acc =
           Some \<lparr>yielded = acc, raised = None, net_after = n, last_j = j, last_data = data\<rparr>"
  by (subst fetch_images_loop.simps) (simp add: first_edge_nil [OF assms(1)] assms(2,3))

lemma loop_next:
  assumes "media_edges self j = Inr (PList [])"
    "page_info self j (PStr ''has_next_page'') = Inr h" "truthy h"
    "page_info self j (PStr ''end_cursor'') = Inr c"
    "respond n (log n @ [GraphqlQueryId (session self) ''515216185516880''
                           (payload_set ''after'' c data)]) = Inr v"
    "unpack1 v = Inr j'"
  shows "fetch_images_loop img vid att self data j n acc =
           fetch_images_loop img vid att self (payload_set ''after'' c data) j'
             (n\<lparr>log := log n @ [GraphqlQueryId (session self) ''515216185516880''
                                  (payload_set ''after'' c data)]\<rparr>) acc"
  by (subst fetch_images_loop.simps)
     (simp add: first_edge_nil [OF assms(1)] assms(2-6) perform_def Let_def)

lemma loop_exit:
  assumes "fetch_images_loop img vid att self data j n acc = Some r"
  shows "raised r = None \<longrightarrow>
       first_edge self (last_j r) = Inl IndexError \<and>
       (\<exists>h. page_info self (last_j r) (PStr ''has_next_page'') = Inr h \<and> \<not> truthy h)"
proof (rule fetch_images_loop.raw_induct
    [where P = "\<lambda>img vid att self data j n acc r. raised r = None \<longrightarrow>
       first_edge self (last_j r) = Inl IndexError \<and>
       (\<exists>h. page_info self (last_j r) (PStr ''has_next_page'') = Inr h \<and> \<not> truthy h)",
      OF _ assms], goal_cases)
  case (1 loop img vid att self data j n acc r)
  from 1(2) show ?case
    by (auto simp: Let_def dest!: 1(1) split: sum.splits error.splits if_splits prod.splits)
qed

lemma page_ok_all2:
  assumes "page_ok img vid att self j"
  shows "media_edges self j = Inr (PList (page_edges self j)) \<and>
         list_all2 (\<lambda>e a. attachment_of img vid att e = Inr a)
           (page_edges self j) (page_yields img vid att self j)"
proof -
  from assms obtain es where es: "media_edges self j = Inr (PList es)"
    and ok: "list_all (\<lambda>e. \<not> isl (attachment_of img vid att e)) es"
    by (auto simp: page_ok_def split: sum.splits pyval.splits)
  have "list_all2 (\<lambda>e a. attachment_of img vid att e = Inr a) es
          (map (\<lambda>e. projr (attachment_of img vid att e)) es)"
    using ok by (induction es) (auto simp: isl_def)
  with es show ?thesis by (simp add: page_edges_def page_yields_def)
qed

lemma loop_served:
  "served img vid att self (respond n) (log n) data j js \<Longrightarrow>
     \<exists>r. fetch_images_loop img vid att self data j n acc = Some r \<and>
         yielded r = acc @ concat (map (page_yields img vid att self) (j # js)) \<and>
         raised r = None \<and>
         net_after r = n\<lparr>log := log n @ page_queries self data j js\<rparr>"
proof (induction js arbitrary: j data n acc)
  case Nil
  then have ok: "page_ok img vid att self j" and lp: "last_page self j" by simp_all
  from page_ok_all2 [OF ok] loop_page [of img vid att "page_edges self j" "page_yields img vid att self j" self j data n acc]
  obtain j' where j': "media_edges self j' = Inr (PList [])"
    "\<forall>k. page_info self j' k = page_info self j k"
    "fetch_images_loop img vid att self data j n acc =
       fetch_images_loop img vid att self data j' n (acc @ page_yields img vid att self j)"
    by blast
  from lp j'(2) obtain h where h: "page_info self j' (PStr ''has_next_page'') = Inr h" "\<not> truthy h"
    by (auto simp: last_page_def split: sum.splits)
  from loop_stop [OF j'(1) h, of img vid att data n "acc @ page_yields img vid att self j"] j'(3)
  show ?case by simp
next
  case (Cons j1 js)
  from Cons.prems have ok: "page_ok img vid att self j" and hn: "has_next_page self j" by simp_all
  from Cons.prems obtain c where c: "page_info self j (PStr ''end_cursor'') = Inr c"
    by (auto split: sum.splits)
  let ?data' = "payload_set ''after'' c data"
  let ?q = "image_query self ?data'"
  let ?n' = "n\<lparr>log := log n @ [?q]\<rparr>"
  from Cons.prems c have rsp: "respond n (log n @ [?q]) = Inr (PList [j1])"
    and rest: "served img vid att self (respond ?n') (log ?n') ?data' j1 js"
    by (simp_all add: Let_def)
  from page_ok_all2 [OF ok] loop_page [of img vid att "page_edges self j" "page_yields img vid att self j" self j data n acc]
  obtain j' where j': "media_edges self j' = Inr (PList [])"
    "\<forall>k. page_info self j' k = page_info self j k"
    "fetch_images_loop img vid att self data j n acc =
       fetch_images_loop img vid att self data j' n (acc @ page_yields img vid att self j)"
    by blast
  from hn j'(2) obtain h where h: "page_info self j' (PStr ''has_next_page'') = Inr h" "truthy h"
    by (auto simp: has_next_page_def split: sum.splits)
  from c j'(2) have c': "page_info self j' (PStr ''end_cursor'') = Inr c" by simp
  have u: "unpack1 (PList [j1]) = Inr j1" by (simp add: unpack1_def)
  from loop_next [OF j'(1) h c' rsp [unfolded image_query_def] u]
  have nx: "fetch_images_loop img vid att self data j' n (acc @ page_yields img vid att self j) =
      fetch_images_loop img vid att self ?data' j1 ?n' (acc @ page_yields img vid att self j)"
    by (simp add: image_query_def)
  from Cons.IH [OF rest, of "acc @ page_yields img vid att self j"] obtain r where
    r: "fetch_images_loop img vid att self ?data' j1 ?n' (acc @ page_yields img vid att self j) = Some r"
      "yielded r = (acc @ page_yields img vid att self j) @ concat (map (page_yields img vid att self) (j1 # js))"
      "raised r = None"
      "net_after r = ?n'\<lparr>log := log ?n' @ page_queries self ?data' j1 js\<rparr>"
    by blast
  from j'(3) nx r c show ?case by (simp add: Let_def)
qed

lemma more_page_access:
  "first_edge self (more_page (thread_id self)) = Inl IndexError"
  "page_info self (more_page (thread_id self)) (PStr ''has_next_page'') = Inr (PBool True)"
  "page_info self (more_page (thread_id self)) (PStr ''end_cursor'') = Inr (PStr ''c'')"
  by (simp_all add: more_page_def first_edge_def media_edges_def shared_media_def page_info_def
      py_get_def seq_index_def)

lemma loop_endless:
  assumes "fetch_images_loop img vid att self data j n acc = Some r"
  shows "\<not> endless self j n"
proof (rule fetch_images_loop.raw_induct
    [where P = "\<lambda>img vid att self data j n acc r. \<not> endless self j n", OF _ assms], goal_cases)
  case (1 loop img vid att self data j n acc r)
  show ?case
  proof
    assume e: "endless self j n"
    then have j: "j = more_page (thread_id self)"
      and rs: "respond n = (\<lambda>_. Inr (PList [more_page (thread_id self)]))"
      by (simp_all add: endless_def)
    let ?data' = "payload_set ''after'' (PStr ''c'') data"
    let ?n' = "n\<lparr>log := log n @ [GraphqlQueryId (session self) ''515216185516880'' ?data']\<rparr>"
    from 1(2) have "loop img vid att self ?data' (more_page (thread_id self)) ?n' acc = Some r"
      unfolding j by (simp add: more_page_access perform_def Let_def rs unpack1_def)
    from 1(1) [OF this] show False
      by (simp add: endless_def rs)
  qed
qed

lemma fetch_images_endless:
  assumes "respond n = (\<lambda>_. Inr (PList [more_page (thread_id self)]))"
  shows "fetch_images img vid att self n = None"
proof -
  let ?data = "[(''id'', PStr (thread_id self)), (''first'', PInt 48)]"
  let ?n' = "n\<lparr>log := log n @ [GraphqlQueryId (session self) ''515216185516880'' ?data]\<rparr>"
  have "endless self (more_page (thread_id self)) ?n'"
    using assms by (simp add: endless_def)
  then have "fetch_images_loop img vid att self ?data (more_page (thread_id self)) ?n' [] = None"
    using loop_endless [of img vid att self ?data "more_page (thread_id self)" ?n' "[]"]
    by (cases "fetch_images_loop img vid att self ?data (more_page (thread_id self)) ?n' []") auto
  then show ?thesis
    using assms by (simp add: fetch_images_def perform_def Let_def unpack1_def)
qed

lemma attachment_of_node:
  assumes "py_getitem i (PStr ''node'') = Inr (PDict node)"
  shows "attachment_of img vid att i =
     (if dict_lookup (PStr ''__typename'') node = Some (PStr ''MessageImage'') then img i
      else if dict_lookup (PStr ''__typename'') node = Some (PStr ''MessageVideo'') then vid i
      else Inr (att (case dict_lookup (PStr ''legacy_attachment_id'') node of
                       None \<Rightarrow> PNone | Some a \<Rightarrow> a)))"
  using assms
  by (auto simp: attachment_of_def py_get_def py_eq_PStr split: option.splits)

lemma fetch_images_served:
  assumes "respond n (log n @ [image_query self [(''id'', PStr (thread_id self)), (''first'', PInt 48)]])
             = Inr (PList [j])"
    and "served img vid att self (respond n)
           (log n @ [image_query self [(''id'', PStr (thread_id self)), (''first'', PInt 48)]])
           [(''id'', PStr (thread_id self)), (''first'', PInt 48)] j js"
  shows "fetch_images img vid att self n =
           Some (concat (map (page_yields img vid att self) (j # js)), None,
                 n\<lparr>log := log n @ image_query self [(''id'', PStr (thread_id self)), (''first'', PInt 48)]
                            # page_queries self [(''id'', PStr (thread_id self)), (''first'', PInt 48)] j js\<rparr>)"
proof -
  let ?data = "[(''id'', PStr (thread_id self)), (''first'', PInt 48)]"
  let ?n' = "n\<lparr>log := log n @ [image_query self ?data]\<rparr>"
  from assms(2) have "served img vid att self (respond ?n') (log ?n') ?data j js" by simp
  from loop_served [OF this, of "[]"] obtain r where
    r: "fetch_images_loop img vid att self ?data j ?n' [] = Some r"
      "yielded r = concat (map (page_yields img vid att self) (j # js))"
      "raised r = None"
      "net_after r = ?n'\<lparr>log := log ?n' @ page_queries self ?data j js\<rparr>"
    by auto
  from assms(1) r show ?thesis
    by (simp add: fetch_images_def perform_def Let_def unpack1_def image_query_def)
qed

text \<open>
  Claim C4. Each edge gives one attachment: what \<^verbatim>\<open>ImageAttachment._from_list\<close> builds
  for the typename \<open>MessageImage\<close>, what \<^verbatim>\<open>VideoAttachment._from_list\<close> builds for
  \<open>MessageVideo\<close>, and an \<open>Attachment\<close> with the \<open>legacy_attachment_id\<close> otherwise. Against a
  transport that serves a finite sequence of pages, the run ends and has yielded the
  attachments of all edges, page by page and in the order of the edges, after one
  request per page. When the edges of a page are exhausted and \<open>has_next_page\<close> is truthy,
  the loop goes on with the response to a request whose \<open>after\<close> is the \<open>end_cursor\<close>;
  when it is not truthy, the loop ends. A run that ends without an exception has ended
  there: at a page with exhausted edges and a \<open>has_next_page\<close> that is not truthy. Against
  a transport that only serves pages without edges that announce a next page, the run
  never ends.
\<close>

theorem fetch_images_spec:
  "(py_getitem i (PStr ''node'') = Inr (PDict node) \<longrightarrow>
      attachment_of img vid att i =
        (if dict_lookup (PStr ''__typename'') node = Some (PStr ''MessageImage'') then img i
         else if dict_lookup (PStr ''__typename'') node = Some (PStr ''MessageVideo'') then vid i
         else Inr (att (case dict_lookup (PStr ''legacy_attachment_id'') node of
                          None \<Rightarrow> PNone | Some a \<Rightarrow> a)))) \<and>
   (respond n (log n @ [image_query self [(''id'', PStr (thread_id self)), (''first'', PInt 48)]])
      = Inr (PList [j0]) \<and>
    served img vid att self (respond n)
      (log n @ [image_query self [(''id'', PStr (thread_id self)), (''first'', PInt 48)]])
      [(''id'', PStr (thread_id self)), (''first'', PInt 48)] j0 js \<longrightarrow>
      fetch_images img vid att self n =
        Some (concat (map (page_yields img vid att self) (j0 # js)), None,
              n\<lparr>log := log n @
                   image_query self [(''id'', PStr (thread_id self)), (''first'', PInt 48)]
                   # page_queries self [(''id'', PStr (thread_id self)), (''first'', PInt 48)] j0 js\<rparr>)) \<and>
   (media_edges self j = Inr (PList []) \<and>
    page_info self j (PStr ''has_next_page'') = Inr h \<and> truthy h \<and>
    page_info self j (PStr ''end_cursor'') = Inr c \<and>
    respond n (log n @ [image_query self (payload_set ''after'' c data)]) = Inr (PList [j']) \<longrightarrow>
      fetch_images_loop img vid att self data j n acc =
        fetch_images_loop img vid att self (payload_set ''after'' c data) j'
          (n\<lparr>log := log n @ [image_query self (payload_set ''after'' c data)]\<rparr>) acc) \<and>
   (media_edges self j = Inr (PList []) \<and>
    page_info self j (PStr ''has_next_page'') = Inr h \<and> \<not> truthy h \<longrightarrow>
      fetch_images_loop img vid att self data j n acc =
        Some \<lparr>yielded = acc, raised = None, net_after = n, last_j = j, last_data = data\<rparr>) \<and>
   (fetch_images_loop img vid att self data j n acc = Some r \<and> raised r = None \<longrightarrow>
      first_edge self (last_j r) = Inl IndexError \<and>
      (\<exists>h. page_info self (last_j r) (PStr ''has_next_page'') = Inr h \<and> \<not> truthy h)) \<and>
   (respond n = (\<lambda>_. Inr (PList [more_page (thread_id self)])) \<longrightarrow>
      fetch_images img vid att self n = None)"
proof (intro conjI impI)
  assume "py_getitem i (PStr ''node'') = Inr (PDict node)"
  then show "attachment_of img vid att i =
        (if dict_lookup (PStr ''__typename'') node = Some (PStr ''MessageImage'') then img i
         else if dict_lookup (PStr ''__typename'') node = Some (PStr ''MessageVideo'') then vid i
         else Inr (att (case dict_lookup (PStr ''legacy_attachment_id'') node of
                          None \<Rightarrow> PNone | Some a \<Rightarrow> a)))"
    by (rule attachment_of_node)
next
  let ?data = "[(''id'', PStr (thread_id self)), (''first'', PInt 48)]"
  assume "respond n (log n @ [image_query self ?data]) = Inr (PList [j0]) \<and>
    served img vid att self (respond n) (log n @ [image_query self ?data]) ?data j0 js"
  then show "fetch_images img vid att self n =
        Some (concat (map (page_yields img vid att self) (j0 # js)), None,
              n\<lparr>log := log n @ image_query self ?data # page_queries self ?data j0 js\<rparr>)"
    using fetch_images_served [of n self j0 img vid att js] by blast
next
  assume a: "media_edges self j = Inr (PList []) \<and>
    page_info self j (PStr ''has_next_page'') = Inr h \<and> truthy h \<and>
    page_info self j (PStr ''end_cursor'') = Inr c \<and>
    respond n (log n @ [image_query self (payload_set ''after'' c data)]) = Inr (PList [j'])"
  have u: "unpack1 (PList [j']) = Inr j'" by (simp add: unpack1_def)
  from a have "media_edges self j = Inr (PList [])"
    "page_info self j (PStr ''has_next_page'') = Inr h" "truthy h"
    "page_info self j (PStr ''end_cursor'') = Inr c"
    "respond n (log n @ [GraphqlQueryId (session self) ''515216185516880''
                           (payload_set ''after'' c data)]) = Inr (PList [j'])"
    by (simp_all add: image_query_def)
  from loop_next [OF this u, of img vid att acc]
  show "fetch_images_loop img vid att self data j n acc =
        fetch_images_loop img vid att self (payload_set ''after'' c data) j'
          (n\<lparr>log := log n @ [image_query self (payload_set ''after'' c data)]\<rparr>) acc"
    by (simp add: image_query_def)
next
  assume "media_edges self j = Inr (PList []) \<and>
    page_info self j (PStr ''has_next_page'') = Inr h \<and> \<not> truthy h"
  then show "fetch_images_loop img vid att self data j n acc =
        Some \<lparr>yielded = acc, raised = None, net_after = n, last_j = j, last_data = data\<rparr>"
    using loop_stop [of self j h img vid att data n acc] by blast
next
  assume a: "fetch_images_loop img vid att self data j n acc = Some r \<and> raised r = None"
  then have "fetch_images_loop img vid att self data j n acc = Some r" by simp
  from loop_exit [OF this] a
  have b: "first_edge self (last_j r) = Inl IndexError \<and>
      (\<exists>h. page_info self (last_j r) (PStr ''has_next_page'') = Inr h \<and> \<not> truthy h)"
    by simp
  from b show "first_edge self (last_j r) = Inl IndexError" by simp
  from b show "\<exists>h. page_info self (last_j r) (PStr ''has_next_page'') = Inr h \<and> \<not> truthy h"
    by simp
next
  assume "respond n = (\<lambda>_. Inr (PList [more_page (thread_id self)]))"
  then show "fetch_images img vid att self n = None"
    by (rule fetch_images_endless)
qed

lemma sample_pages:
  "media_edges some_thread page_one =
     Inr (PList [media_edge ''MessageImage'' ''a1'', media_edge ''MessageVideo'' ''a2''])"
  "media_edges some_thread page_two = Inr (PList [media_edge ''MessageFile'' ''a3''])"
  "page_info some_thread page_one k =
     py_get (PDict [(PStr ''has_next_page'', PBool True), (PStr ''end_cursor'', PStr ''cur1'')]) k"
  "page_info some_thread page_two k =
     py_get (PDict [(PStr ''has_next_page'', PBool False), (PStr ''end_cursor'', PNone)]) k"
  by (simp_all add: page_one_def page_two_def media_page_def media_edges_def shared_media_def
      page_info_def some_thread_def)

lemma sample_attachments:
  "attachment_of (\<lambda>e. Inr (ImageAttachment e)) (\<lambda>e. Inr (VideoAttachment e)) Attachment
     (media_edge ''MessageImage'' ''a1'') = Inr (ImageAttachment (media_edge ''MessageImage'' ''a1''))"
  "attachment_of (\<lambda>e. Inr (ImageAttachment e)) (\<lambda>e. Inr (VideoAttachment e)) Attachment
     (media_edge ''MessageVideo'' ''a2'') = Inr (VideoAttachment (media_edge ''MessageVideo'' ''a2''))"
  "attachment_of (\<lambda>e. Inr (ImageAttachment e)) (\<lambda>e. Inr (VideoAttachment e)) Attachment
     (media_edge ''MessageFile'' ''a3'') = Inr (Attachment (PStr ''a3''))"
  by (simp_all add: attachment_of_def media_edge_def py_get_def)

theorem fetch_images_spec_witness:
  "fetch_images (\<lambda>e. Inr (ImageAttachment e)) (\<lambda>e. Inr (VideoAttachment e)) Attachment
     some_thread media_net =
   Some ([ImageAttachment (media_edge ''MessageImage'' ''a1''),
          VideoAttachment (media_edge ''MessageVideo'' ''a2''),
          Attachment (PStr ''a3'')],
         None,
         media_net\<lparr>log :=
           [GraphqlQueryId 0 ''515216185516880'' [(''id'', PStr ''1234''), (''first'', PInt 48)],
            GraphqlQueryId 0 ''515216185516880''
              [(''id'', PStr ''1234''), (''first'', PInt 48), (''after'', PStr ''cur1'')]]\<rparr>) \<and>
   attachment_of (\<lambda>e. Inr (ImageAttachment e)) (\<lambda>e. Inr (VideoAttachment e)) Attachment
     (media_edge ''MessageFile'' ''a3'') = Inr (Attachment (PStr ''a3'')) \<and>
   fetch_images_loop (\<lambda>e. Inr (ImageAttachment e)) (\<lambda>e. Inr (VideoAttachment e)) Attachment
     some_thread [(''id'', PStr ''1234'')] (media_page ''1234'' [] (PBool True) (PStr ''cur1''))
     media_net [] =
   fetch_images_loop (\<lambda>e. Inr (ImageAttachment e)) (\<lambda>e. Inr (VideoAttachment e)) Attachment
     some_thread [(''id'', PStr ''1234''), (''after'', PStr ''cur1'')] page_one
     (media_net\<lparr>log := [GraphqlQueryId 0 ''515216185516880''
                            [(''id'', PStr ''1234''), (''after'', PStr ''cur1'')]]\<rparr>) [] \<and>
   fetch_images_loop (\<lambda>e. Inr (ImageAttachment e)) (\<lambda>e. Inr (VideoAttachment e)) Attachment
     some_thread [] (media_page ''1234'' [] (PBool False) PNone) media_net [] =
   Some \<lparr>yielded = [], raised = None, net_after = media_net,
         last_j = media_page ''1234'' [] (PBool False) PNone, last_data = []\<rparr> \<and>
   first_edge some_thread (media_page ''1234'' [] (PBool False) PNone) = Inl IndexError \<and>
   fetch_images (\<lambda>e. Inr (ImageAttachment e)) (\<lambda>e. Inr (VideoAttachment e)) Attachment
     some_thread endless_net = None"
proof -
  let ?img = "\<lambda>e. Inr (ImageAttachment e) :: error + sample_attachment"
  let ?vid = "\<lambda>e. Inr (VideoAttachment e) :: error + sample_attachment"
  let ?data = "[(''id'', PStr (thread_id some_thread)), (''first'', PInt 48)]"
  let ?more = "media_page ''1234'' [] (PBool True) (PStr ''cur1'')"
  let ?last = "media_page ''1234'' [] (PBool False) PNone"
  let ?run = "\<lparr>yielded = [] :: sample_attachment list, raised = None, net_after = media_net,
         last_j = ?last, last_data = []\<rparr>"
  have st: "session some_thread = 0" "thread_id some_thread = ''1234''"
    by (simp_all add: some_thread_def)
  have r0: "respond media_net (log media_net @ [image_query some_thread ?data]) = Inr (PList [page_one])"
    by (simp add: media_net_def)
  have sv: "served ?img ?vid Attachment some_thread (respond media_net)
      (log media_net @ [image_query some_thread ?data]) ?data page_one [page_two]"
    by (simp add: page_ok_def has_next_page_def last_page_def sample_pages sample_attachments
        py_get_def media_net_def Let_def)
  have ys: "concat (map (page_yields ?img ?vid Attachment some_thread) [page_one, page_two]) =
      [ImageAttachment (media_edge ''MessageImage'' ''a1''),
       VideoAttachment (media_edge ''MessageVideo'' ''a2''), Attachment (PStr ''a3'')]"
    by (simp add: page_yields_def page_edges_def sample_pages sample_attachments)
  have qs: "log media_net @ image_query some_thread ?data # page_queries some_thread ?data page_one [page_two] =
      [GraphqlQueryId 0 ''515216185516880'' [(''id'', PStr ''1234''), (''first'', PInt 48)],
       GraphqlQueryId 0 ''515216185516880''
         [(''id'', PStr ''1234''), (''first'', PInt 48), (''after'', PStr ''cur1'')]]"
    by (simp add: sample_pages py_get_def image_query_def media_net_def st Let_def)
  note T = fetch_images_spec [where img = ?img and vid = ?vid and att = Attachment
      and self = some_thread]
  from T [where n = media_net and ?j0.0 = page_one and js = "[page_two]",
      THEN conjunct2, THEN conjunct1] r0 sv
  have "fetch_images ?img ?vid Attachment some_thread media_net =
        Some (concat (map (page_yields ?img ?vid Attachment some_thread) [page_one, page_two]), None,
              media_net\<lparr>log := log media_net @ image_query some_thread ?data
                   # page_queries some_thread ?data page_one [page_two]\<rparr>)"
    by blast
  then have w2: "fetch_images ?img ?vid Attachment some_thread media_net =
   Some ([ImageAttachment (media_edge ''MessageImage'' ''a1''),
          VideoAttachment (media_edge ''MessageVideo'' ''a2''),
          Attachment (PStr ''a3'')],
         None,
         media_net\<lparr>log :=
           [GraphqlQueryId 0 ''515216185516880'' [(''id'', PStr ''1234''), (''first'', PInt 48)],
            GraphqlQueryId 0 ''515216185516880''
              [(''id'', PStr ''1234''), (''first'', PInt 48), (''after'', PStr ''cur1'')]]\<rparr>)"
    unfolding ys qs .
  have n1: "py_getitem (media_edge ''MessageFile'' ''a3'') (PStr ''node'') =
      Inr (PDict [(PStr ''__typename'', PStr ''MessageFile''), (PStr ''legacy_attachment_id'', PStr ''a3'')])"
    by (simp add: media_edge_def)
  from T [where i = "media_edge ''MessageFile'' ''a3''"
      and node = "[(PStr ''__typename'', PStr ''MessageFile''), (PStr ''legacy_attachment_id'', PStr ''a3'')]",
      THEN conjunct1] n1
  have w1: "attachment_of ?img ?vid Attachment (media_edge ''MessageFile'' ''a3'') =
      Inr (Attachment (PStr ''a3''))"
    by simp
  have pm: "media_edges some_thread ?more = Inr (PList [])"
    "page_info some_thread ?more (PStr ''has_next_page'') = Inr (PBool True)"
    "page_info some_thread ?more (PStr ''end_cursor'') = Inr (PStr ''cur1'')"
    "media_edges some_thread ?last = Inr (PList [])"
    "page_info some_thread ?last (PStr ''has_next_page'') = Inr (PBool False)"
    by (simp_all add: media_page_def media_edges_def shared_media_def page_info_def py_get_def st)
  have r3: "respond media_net (log media_net @
      [image_query some_thread (payload_set ''after'' (PStr ''cur1'') [(''id'', PStr ''1234'')])]) =
      Inr (PList [page_one])"
    by (simp add: media_net_def)
  from T [where n = media_net and j = ?more and h = "PBool True" and c = "PStr ''cur1''"
      and data = "[(''id'', PStr ''1234'')]" and j' = page_one and acc = "[]",
      THEN conjunct2, THEN conjunct2, THEN conjunct1] pm(1-3) r3
  have w3: "fetch_images_loop ?img ?vid Attachment
     some_thread [(''id'', PStr ''1234'')] ?more media_net [] =
   fetch_images_loop ?img ?vid Attachment
     some_thread [(''id'', PStr ''1234''), (''after'', PStr ''cur1'')] page_one
     (media_net\<lparr>log := [GraphqlQueryId 0 ''515216185516880''
                            [(''id'', PStr ''1234''), (''after'', PStr ''cur1'')]]\<rparr>) []"
    by (simp add: image_query_def st media_net_def)
  from T [where n = media_net and j = ?last and h = "PBool False" and data = "[]" and acc = "[]",
      THEN conjunct2, THEN conjunct2, THEN conjunct2, THEN conjunct1] pm(4,5)
  have w4: "fetch_images_loop ?img ?vid Attachment some_thread [] ?last media_net [] = Some ?run"
    by simp
  from T [where n = media_net and j = ?last and data = "[]" and acc = "[]" and r = ?run,
      THEN conjunct2, THEN conjunct2, THEN conjunct2, THEN conjunct2, THEN conjunct1] w4
  have w5: "first_edge some_thread ?last = Inl IndexError"
    by simp
  have e: "respond endless_net = (\<lambda>_. Inr (PList [more_page (thread_id some_thread)]))"
    by (simp add: endless_net_def st)
  from T [where n = endless_net,
      THEN conjunct2, THEN conjunct2, THEN conjunct2, THEN conjunct2, THEN conjunct2] e
  have w6: "fetch_images ?img ?vid Attachment some_thread endless_net = None"
    by simp
  from w1 w2 w3 w4 w5 w6 show ?thesis by simp
qed

subsection \<open>The methods on the store\<close>

text \<open>
  Two facts about each method on the store. It leaves the objects of the store as they
  are, which is read off its body: a call of the session changes the session's state
  only, and no statement assigns to a field of the receiver. For a send method this
  needs that the subclass's \<^verbatim>\<open>_to_send_data\<close>, which is handed the receiver, leaves the
  store as it is. And it agrees with the method on values, run on the value of the
  receiver.
\<close>

lemma session_call_frame: "threads (snd (session_call r w)) = threads w"
  by (simp add: session_call_def split: prod.splits)

lemma session_call_threads: "session_call r w = (j, w') \<Longrightarrow> threads w' = threads w"
  using session_call_frame [of r w] by simp

lemma search_messages_at_frame: "threads (snd (search_messages_at a query offset limit w)) = threads w"
  by (auto simp: search_messages_at_def Let_def dest: session_call_threads split: prod.splits sum.splits)

lemma search_messages_at_value:
  "search_messages_at a query offset limit w =
     on_value (\<lambda>self. search_messages self query offset limit) a w"
  by (simp add: search_messages_at_def search_messages_def on_value_def session_call_def Let_def
      split: prod.splits sum.splits)

lemma set_nickname_at_frame: "threads (snd (set_nickname_at a user_id nickname w)) = threads w"
  by (auto simp: set_nickname_at_def Let_def dest: session_call_threads split: prod.splits sum.splits)

lemma set_nickname_at_value:
  "set_nickname_at a user_id nickname w =
     on_value (\<lambda>self. set_nickname self user_id nickname) a w"
  by (simp add: set_nickname_at_def set_nickname_def on_value_def session_call_def Let_def
      split: prod.splits sum.splits)

lemma set_color_at_frame: "threads (snd (set_color_at a color w)) = threads w"
  by (auto simp: set_color_at_def Let_def dest: session_call_threads split: prod.splits sum.splits)

lemma set_color_at_value:
  "set_color_at a color w =
     on_value (\<lambda>self. set_color self color) a w"
  by (simp add: set_color_at_def set_color_def on_value_def session_call_def Let_def
      split: prod.splits sum.splits)

lemma set_emoji_at_frame: "threads (snd (set_emoji_at a emoji w)) = threads w"
  by (auto simp: set_emoji_at_def Let_def dest: session_call_threads split: prod.splits sum.splits)

lemma set_emoji_at_value:
  "set_emoji_at a emoji w =
     on_value (\<lambda>self. set_emoji self emoji) a w"
  by (simp add: set_emoji_at_def set_emoji_def on_value_def session_call_def Let_def
      split: prod.splits sum.splits)

lemma forward_attachment_at_frame: "threads (snd (forward_attachment_at a attachment_id otid w)) = threads w"
  by (auto simp: forward_attachment_at_def Let_def dest: session_call_threads split: prod.splits sum.splits)

lemma forward_attachment_at_value:
  "forward_attachment_at a attachment_id otid w =
     on_value (\<lambda>self. forward_attachment self attachment_id otid) a w"
  by (simp add: forward_attachment_at_def forward_attachment_def on_value_def session_call_def Let_def
      split: prod.splits sum.splits)

lemma set_typing_at_frame: "threads (snd (set_typing_at a typing w)) = threads w"
  by (auto simp: set_typing_at_def Let_def dest: session_call_threads split: prod.splits sum.splits)

lemma set_typing_at_value:
  "set_typing_at a typing w =
     on_value (\<lambda>self. set_typing self typing) a w"
  by (simp add: set_typing_at_def set_typing_def on_value_def session_call_def Let_def
      split: prod.splits sum.splits)

lemma create_poll_at_frame: "threads (snd (create_poll_at a question options w)) = threads w"
  by (auto simp: create_poll_at_def Let_def dest: session_call_threads split: prod.splits sum.splits)

lemma create_poll_at_value:
  "create_poll_at a question options w =
     on_value (\<lambda>self. create_poll self question options) a w"
  by (simp add: create_poll_at_def create_poll_def on_value_def session_call_def Let_def
      split: prod.splits sum.splits)

lemma mute_at_frame: "threads (snd (mute_at tts a duration w)) = threads w"
  by (auto simp: mute_at_def Let_def dest: session_call_threads split: prod.splits sum.splits)

lemma mute_at_value:
  "mute_at tts a duration w =
     on_value (\<lambda>self. mute tts self duration) a w"
  by (simp add: mute_at_def mute_def on_value_def session_call_def Let_def
      split: prod.splits sum.splits)

lemma mute_reactions_mode_at_frame: "threads (snd (mute_reactions_mode_at a mode w)) = threads w"
  by (auto simp: mute_reactions_mode_at_def Let_def dest: session_call_threads split: prod.splits sum.splits)

lemma mute_reactions_mode_at_value:
  "mute_reactions_mode_at a mode w =
     on_value (\<lambda>self. mute_reactions_mode self mode) a w"
  by (simp add: mute_reactions_mode_at_def mute_reactions_mode_def on_value_def session_call_def Let_def
      split: prod.splits sum.splits)

lemma mute_mentions_mode_at_frame: "threads (snd (mute_mentions_mode_at a mode w)) = threads w"
  by (auto simp: mute_mentions_mode_at_def Let_def dest: session_call_threads split: prod.splits sum.splits)

lemma mute_mentions_mode_at_value:
  "mute_mentions_mode_at a mode w =
     on_value (\<lambda>self. mute_mentions_mode self mode) a w"
  by (simp add: mute_mentions_mode_at_def mute_mentions_mode_def on_value_def session_call_def Let_def
      split: prod.splits sum.splits)

lemma mark_as_spam_at_frame: "threads (snd (mark_as_spam_at a w)) = threads w"
  by (auto simp: mark_as_spam_at_def Let_def dest: session_call_threads split: prod.splits sum.splits)

lemma mark_as_spam_at_value:
  "mark_as_spam_at a w =
     on_value (mark_as_spam) a w"
  by (simp add: mark_as_spam_at_def mark_as_spam_def on_value_def session_call_def Let_def
      split: prod.splits sum.splits)

lemma forced_fetch_at_frame: "threads (snd (forced_fetch_at a message_id w)) = threads w"
  by (auto simp: forced_fetch_at_def Let_def dest: session_call_threads split: prod.splits sum.splits)

lemma forced_fetch_at_value:
  "forced_fetch_at a message_id w =
     on_value (\<lambda>self. forced_fetch self message_id) a w"
  by (simp add: forced_fetch_at_def forced_fetch_def on_value_def session_call_def Let_def
      split: prod.splits sum.splits)

lemma start_typing_at_frame: "threads (snd (start_typing_at a w)) = threads w"
  by (simp add: start_typing_at_def set_typing_at_frame)

lemma start_typing_at_value:
  "start_typing_at a w =
     on_value (start_typing) a w"
  by (simp add: start_typing_at_def start_typing_def set_typing_at_value on_value_def)

lemma stop_typing_at_frame: "threads (snd (stop_typing_at a w)) = threads w"
  by (simp add: stop_typing_at_def set_typing_at_frame)

lemma stop_typing_at_value:
  "stop_typing_at a w =
     on_value (stop_typing) a w"
  by (simp add: stop_typing_at_def stop_typing_def set_typing_at_value on_value_def)

lemma unmute_at_frame: "threads (snd (unmute_at tts a w)) = threads w"
  by (simp add: unmute_at_def mute_at_frame)

lemma unmute_at_value:
  "unmute_at tts a w =
     on_value (unmute tts) a w"
  by (simp add: unmute_at_def unmute_def mute_at_value on_value_def)

lemma mute_reactions_at_frame: "threads (snd (mute_reactions_at a w)) = threads w"
  by (simp add: mute_reactions_at_def mute_reactions_mode_at_frame)

lemma mute_reactions_at_value:
  "mute_reactions_at a w =
     on_value (mute_reactions) a w"
  by (simp add: mute_reactions_at_def mute_reactions_def mute_reactions_mode_at_value on_value_def)

lemma unmute_reactions_at_frame: "threads (snd (unmute_reactions_at a w)) = threads w"
  by (simp add: unmute_reactions_at_def mute_reactions_mode_at_frame)

lemma unmute_reactions_at_value:
  "unmute_reactions_at a w =
     on_value (unmute_reactions) a w"
  by (simp add: unmute_reactions_at_def unmute_reactions_def mute_reactions_mode_at_value on_value_def)

lemma mute_mentions_at_frame: "threads (snd (mute_mentions_at a w)) = threads w"
  by (simp add: mute_mentions_at_def mute_mentions_mode_at_frame)

lemma mute_mentions_at_value:
  "mute_mentions_at a w =
     on_value (mute_mentions) a w"
  by (simp add: mute_mentions_at_def mute_mentions_def mute_mentions_mode_at_value on_value_def)

lemma unmute_mentions_at_frame: "threads (snd (unmute_mentions_at a w)) = threads w"
  by (simp add: unmute_mentions_at_def mute_mentions_mode_at_frame)

lemma unmute_mentions_at_value:
  "unmute_mentions_at a w =
     on_value (unmute_mentions) a w"
  by (simp add: unmute_mentions_at_def unmute_mentions_def mute_mentions_mode_at_value on_value_def)

lemma to_send_data_at_frame:
  "cls (threads w ! a) = ThreadClass \<or> threads (snd (sub a w)) = threads w \<Longrightarrow>
   threads (snd (to_send_data_at sub a w)) = threads w"
  by (auto simp: to_send_data_at_def split: thread_class.splits)

lemma to_send_data_at_value:
  "sub a w = (sub' (threads w ! a), w) \<Longrightarrow>
   to_send_data_at sub a w = (to_send_data sub' (threads w ! a), w)"
  by (simp add: to_send_data_at_def to_send_data_def split: thread_class.splits)

lemma wave_at_frame:
  assumes "cls (threads w ! a) = ThreadClass \<or> threads (snd (sub a w)) = threads w"
  shows "threads (snd (wave_at sub a first w)) = threads w"
  using to_send_data_at_frame [where sub = sub and a = a and w = w, OF assms]
  by (auto simp: wave_at_def Let_def session_call_frame dest: session_call_threads
      split: prod.splits sum.splits)

lemma wave_at_value:
  assumes "sub a w = (sub' (threads w ! a), w)"
  shows "wave_at sub a first w =
         on_value (\<lambda>self. wave sub' self first) a w"
  by (cases "to_send_data sub' (threads w ! a)")
     (simp_all add: wave_at_def wave_def on_value_def
        to_send_data_at_value [where sub = sub and sub' = sub' and a = a and w = w, OF assms]
        session_call_def Let_def split: prod.splits sum.splits)

lemma send_text_at_frame:
  assumes "cls (threads w ! a) = ThreadClass \<or> threads (snd (sub a w)) = threads w"
  shows "threads (snd (send_text_at sub mention_data mimetype_to_key a body mentions files
                        reply_to_id w)) = threads w"
  using to_send_data_at_frame [where sub = sub and a = a and w = w, OF assms]
  by (auto simp: send_text_at_def Let_def session_call_frame dest: session_call_threads
      split: prod.splits sum.splits)

lemma send_text_at_value:
  assumes "sub a w = (sub' (threads w ! a), w)"
  shows "send_text_at sub mention_data mimetype_to_key a body mentions files reply_to_id w =
         on_value (\<lambda>self. send_text sub' mention_data mimetype_to_key self body mentions files
                            reply_to_id) a w"
  by (cases "to_send_data sub' (threads w ! a)")
     (simp_all add: send_text_at_def send_text_def on_value_def
        to_send_data_at_value [where sub = sub and sub' = sub' and a = a and w = w, OF assms]
        session_call_def Let_def split: prod.splits sum.splits)

lemma send_emoji_at_frame:
  assumes "cls (threads w ! a) = ThreadClass \<or> threads (snd (sub a w)) = threads w"
  shows "threads (snd (send_emoji_at sub a emoji size_name w)) = threads w"
  using to_send_data_at_frame [where sub = sub and a = a and w = w, OF assms]
  by (auto simp: send_emoji_at_def Let_def session_call_frame dest: session_call_threads
      split: prod.splits sum.splits)

lemma send_emoji_at_value:
  assumes "sub a w = (sub' (threads w ! a), w)"
  shows "send_emoji_at sub a emoji size_name w =
         on_value (\<lambda>self. send_emoji sub' self emoji size_name) a w"
  by (cases "to_send_data sub' (threads w ! a)")
     (simp_all add: send_emoji_at_def send_emoji_def on_value_def
        to_send_data_at_value [where sub = sub and sub' = sub' and a = a and w = w, OF assms]
        session_call_def Let_def split: prod.splits sum.splits)

lemma send_sticker_at_frame:
  assumes "cls (threads w ! a) = ThreadClass \<or> threads (snd (sub a w)) = threads w"
  shows "threads (snd (send_sticker_at sub a sticker_id w)) = threads w"
  using to_send_data_at_frame [where sub = sub and a = a and w = w, OF assms]
  by (auto simp: send_sticker_at_def Let_def session_call_frame dest: session_call_threads
      split: prod.splits sum.splits)

lemma send_sticker_at_value:
  assumes "sub a w = (sub' (threads w ! a), w)"
  shows "send_sticker_at sub a sticker_id w =
         on_value (\<lambda>self. send_sticker sub' self sticker_id) a w"
  by (cases "to_send_data sub' (threads w ! a)")
     (simp_all add: send_sticker_at_def send_sticker_def on_value_def
        to_send_data_at_value [where sub = sub and sub' = sub' and a = a and w = w, OF assms]
        session_call_def Let_def split: prod.splits sum.splits)

lemma send_location_current_at_frame:
  assumes "cls (threads w ! a) = ThreadClass \<or> threads (snd (sub a w)) = threads w"
  shows "threads (snd (send_location_current_at sub a current latitude longitude w)) = threads w"
  using to_send_data_at_frame [where sub = sub and a = a and w = w, OF assms]
  by (auto simp: send_location_current_at_def Let_def session_call_frame dest: session_call_threads
      split: prod.splits sum.splits)

lemma send_location_current_at_value:
  assumes "sub a w = (sub' (threads w ! a), w)"
  shows "send_location_current_at sub a current latitude longitude w =
         on_value (\<lambda>self. send_location_current sub' self current latitude longitude) a w"
  by (cases "to_send_data sub' (threads w ! a)")
     (simp_all add: send_location_current_at_def send_location_current_def on_value_def
        to_send_data_at_value [where sub = sub and sub' = sub' and a = a and w = w, OF assms]
        session_call_def Let_def split: prod.splits sum.splits)

lemma send_location_at_frame:
  assumes "cls (threads w ! a) = ThreadClass \<or> threads (snd (sub a w)) = threads w"
  shows "threads (snd (send_location_at sub a latitude longitude w)) = threads w"
  using send_location_current_at_frame [where sub = sub and a = a and w = w and current = True
      and latitude = latitude and longitude = longitude, OF assms]
  by (auto simp: send_location_at_def split: prod.splits sum.splits)

lemma send_location_at_value:
  assumes "sub a w = (sub' (threads w ! a), w)"
  shows "send_location_at sub a latitude longitude w =
         on_value (\<lambda>self. send_location sub' self latitude longitude) a w"
  by (simp add: send_location_at_def send_location_def on_value_def
      send_location_current_at_value [where sub = sub and sub' = sub' and a = a and w = w, OF assms]
      split: prod.splits sum.splits)

lemma send_pinned_location_at_frame:
  assumes "cls (threads w ! a) = ThreadClass \<or> threads (snd (sub a w)) = threads w"
  shows "threads (snd (send_pinned_location_at sub a latitude longitude w)) = threads w"
  using send_location_current_at_frame [where sub = sub and a = a and w = w and current = False
      and latitude = latitude and longitude = longitude, OF assms]
  by (auto simp: send_pinned_location_at_def split: prod.splits sum.splits)

lemma send_pinned_location_at_value:
  assumes "sub a w = (sub' (threads w ! a), w)"
  shows "send_pinned_location_at sub a latitude longitude w =
         on_value (\<lambda>self. send_pinned_location sub' self latitude longitude) a w"
  by (simp add: send_pinned_location_at_def send_pinned_location_def on_value_def
      send_location_current_at_value [where sub = sub and sub' = sub' and a = a and w = w, OF assms]
      split: prod.splits sum.splits)

lemma send_files_at_frame:
  assumes "cls (threads w ! a) = ThreadClass \<or> threads (snd (sub a w)) = threads w"
  shows "threads (snd (send_files_at sub mention_data mimetype_to_key a files w)) = threads w"
  using send_text_at_frame [where sub = sub and a = a and w = w, OF assms] by (simp add: send_files_at_def)

lemma send_files_at_value:
  assumes "sub a w = (sub' (threads w ! a), w)"
  shows "send_files_at sub mention_data mimetype_to_key a files w =
         on_value (\<lambda>self. send_files sub' mention_data mimetype_to_key self files) a w"
  by (simp add: send_files_at_def send_files_def on_value_def
      send_text_at_value [where sub = sub and sub' = sub' and a = a and w = w, OF assms])


lemma fetch_images_loop_at_frame:
  assumes "fetch_images_loop_at img vid att a data j w acc = Some r"
  shows "threads (snd (snd r)) = threads w"
proof (rule fetch_images_loop_at.raw_induct
    [where P = "\<lambda>img vid att a data j w acc r. threads (snd (snd r)) = threads w",
      OF _ assms], goal_cases)
  case (1 loop img vid att a data j w acc r)
  from 1(2) show ?case
    by (auto simp: Let_def dest!: 1(1) dest: session_call_threads
        split: sum.splits error.splits if_splits prod.splits)
qed

lemma fetch_images_at_frame:
  assumes "fetch_images_at img vid att a w = Some (ys, e, w')"
  shows "threads w' = threads w"
  using assms
  by (auto simp: fetch_images_at_def Let_def
      dest!: fetch_images_loop_at_frame dest: session_call_threads
      split: sum.splits prod.splits)

lemma loop_at_of_value:
  assumes "fetch_images_loop img vid att self data j n acc = Some r"
  shows "\<forall>w. threads w ! a = self \<and> net_of w = n \<longrightarrow>
           fetch_images_loop_at img vid att a data j w acc =
             Some (yielded r, raised r, w\<lparr>net_of := net_after r\<rparr>)"
proof (rule fetch_images_loop.raw_induct
    [where P = "\<lambda>img vid att self data j n acc r.
       \<forall>w. threads w ! a = self \<and> net_of w = n \<longrightarrow>
           fetch_images_loop_at img vid att a data j w acc =
             Some (yielded r, raised r, w\<lparr>net_of := net_after r\<rparr>)",
      OF _ assms], goal_cases)
  case (1 loop img vid att self data j n acc r)
  show ?case
  proof (intro allI impI)
    fix w :: world
    assume h: "threads w ! a = self \<and> net_of w = n"
    from 1(2) h show "fetch_images_loop_at img vid att a data j w acc =
        Some (yielded r, raised r, w\<lparr>net_of := net_after r\<rparr>)"
      by (subst fetch_images_loop_at.simps)
         (auto simp: Let_def session_call_def dest!: 1(1)
            split: sum.splits error.splits if_splits prod.splits)
  qed
qed

lemma loop_value_of_at:
  assumes "fetch_images_loop_at img vid att a data j w acc = Some r"
  shows "\<exists>r'. fetch_images_loop img vid att (threads w ! a) data j (net_of w) acc = Some r'"
proof (rule fetch_images_loop_at.raw_induct
    [where P = "\<lambda>img vid att a data j w acc r.
       \<exists>r'. fetch_images_loop img vid att (threads w ! a) data j (net_of w) acc = Some r'",
      OF _ assms], goal_cases)
  case (1 loop img vid att a data j w acc r)
  from 1(2) show ?case
    by (subst fetch_images_loop.simps)
       (auto simp: Let_def session_call_def dest!: 1(1)
          split: sum.splits error.splits if_splits prod.splits)
qed

lemma fetch_images_loop_at_value:
  "fetch_images_loop_at img vid att a data j w acc =
     map_option (\<lambda>r. (yielded r, raised r, w\<lparr>net_of := net_after r\<rparr>))
       (fetch_images_loop img vid att (threads w ! a) data j (net_of w) acc)"
proof (cases "fetch_images_loop img vid att (threads w ! a) data j (net_of w) acc")
  case None
  then show ?thesis
    using loop_value_of_at [of img vid att a data j w acc]
    by (cases "fetch_images_loop_at img vid att a data j w acc") auto
next
  case (Some r)
  from loop_at_of_value [OF Some, of a] show ?thesis
    by (simp add: Some)
qed

lemma fetch_images_at_value:
  "fetch_images_at img vid att a w =
     map_option (\<lambda>(ys, e, n'). (ys, e, w\<lparr>net_of := n'\<rparr>))
       (fetch_images img vid att (threads w ! a) (net_of w))"
  by (simp add: fetch_images_at_def fetch_images_def session_call_def Let_def
      fetch_images_loop_at_value option.map_comp comp_def split: prod.splits sum.splits)

lemma create_plan_at_value:
  "plan_create a name at location_name location_id w =
     on_value (\<lambda>self. plan_create' self name at location_name location_id) a w \<Longrightarrow>
   create_plan_at plan_create a name at location_name location_id w =
     on_value (\<lambda>self. create_plan plan_create' self name at location_name location_id) a w"
  by (simp add: create_plan_at_def create_plan_def on_value_def)

lemma fetch_messages_frame:
  "take (length (threads w)) (threads (snd (fetch_messages dtm fg a limit before w))) = threads w"
  by (simp add: fetch_messages_def Let_def split: sum.splits prod.splits)

lemma fetch_messages_fresh:
  assumes "fetch_messages dtm fg a limit before w = (Inr xs, w')"
  shows "threads w' = threads w @ [new_thread (cls (threads w ! a)) (session (threads w ! a))
                                     (thread_id (threads w ! a))] \<and>
         (\<exists>read_receipts ms ys.
            messages_from_graphql fg (length (threads w)) read_receipts ms = Inr ys \<and> xs = rev ys)"
  using assms
  by (auto simp: fetch_messages_def Let_def split: sum.splits prod.splits if_splits)


text \<open>The store can tell an assignment: an operation that assigns to the \<open>id\<close> of its
  receiver does not leave the store as it is.\<close>

lemma rename_at_changes:
  "threads (snd (rename_at 0 ''5'' (one_thread_world quiet_net))) \<noteq>
   threads (one_thread_world quiet_net)"
  by (simp add: rename_at_def one_thread_world_def some_thread_def)

lemma sample_images_run:
  "fetch_images (\<lambda>e. Inr (ImageAttachment e)) (\<lambda>e. Inr (VideoAttachment e)) Attachment
     some_thread media_net =
   Some ([ImageAttachment (media_edge ''MessageImage'' ''a1''),
          VideoAttachment (media_edge ''MessageVideo'' ''a2''),
          Attachment (PStr ''a3'')],
         None,
         media_net\<lparr>log :=
           [GraphqlQueryId 0 ''515216185516880'' [(''id'', PStr ''1234''), (''first'', PInt 48)],
            GraphqlQueryId 0 ''515216185516880''
              [(''id'', PStr ''1234''), (''first'', PInt 48), (''after'', PStr ''cur1'')]]\<rparr>)"
proof -
  let ?img = "\<lambda>e. Inr (ImageAttachment e) :: error + sample_attachment"
  let ?vid = "\<lambda>e. Inr (VideoAttachment e) :: error + sample_attachment"
  let ?data = "[(''id'', PStr (thread_id some_thread)), (''first'', PInt 48)]"
  have st: "session some_thread = 0" "thread_id some_thread = ''1234''"
    by (simp_all add: some_thread_def)
  have r0: "respond media_net (log media_net @ [image_query some_thread ?data]) = Inr (PList [page_one])"
    by (simp add: media_net_def)
  have sv: "served ?img ?vid Attachment some_thread (respond media_net)
      (log media_net @ [image_query some_thread ?data]) ?data page_one [page_two]"
    by (simp add: page_ok_def has_next_page_def last_page_def sample_pages sample_attachments
        py_get_def media_net_def Let_def)
  have ys: "concat (map (page_yields ?img ?vid Attachment some_thread) [page_one, page_two]) =
      [ImageAttachment (media_edge ''MessageImage'' ''a1''),
       VideoAttachment (media_edge ''MessageVideo'' ''a2''), Attachment (PStr ''a3'')]"
    by (simp add: page_yields_def page_edges_def sample_pages sample_attachments)
  have qs: "log media_net @ image_query some_thread ?data # page_queries some_thread ?data page_one [page_two] =
      [GraphqlQueryId 0 ''515216185516880'' [(''id'', PStr ''1234''), (''first'', PInt 48)],
       GraphqlQueryId 0 ''515216185516880''
         [(''id'', PStr ''1234''), (''first'', PInt 48), (''after'', PStr ''cur1'')]]"
    by (simp add: sample_pages py_get_def image_query_def media_net_def st Let_def)
  from fetch_images_served [OF r0 sv] show ?thesis unfolding ys qs .
qed

lemma sample_images_at:
  "\<exists>ys w'. fetch_images_at (\<lambda>e. Inr (ImageAttachment e)) (\<lambda>e. Inr (VideoAttachment e))
      Attachment 0 (one_thread_world media_net) = Some (ys, None, w')"
  by (simp add: fetch_images_at_value one_thread_world_def sample_images_run)

lemma sample_fetch_messages:
  "fetch_messages (\<lambda>t :: nat. 0) (\<lambda>t m rr. Inr (t, m)) 0 20 None
     (one_thread_world (fixed_net two_messages)) =
   (Inr [(1, PStr ''newer''), (1, PStr ''older'')],
    \<lparr>threads = [some_thread, some_thread],
     net_of = (fixed_net two_messages)\<lparr>log :=
       [GraphqlDocId 0 ''1860982147341344''
          [(''id'', PStr ''1234''), (''message_limit'', PInt 20), (''load_messages'', PBool True),
           (''load_read_receipts'', PBool True), (''before'', PNone)]]\<rparr>\<rparr>)"
  by (simp add: fetch_messages_def one_thread_world_def fixed_net_def two_messages_def
      some_thread_def perform_def unpack1_def py_get_def item3_def new_thread_def Let_def)

lemma sample_store:
  "threads (one_thread_world n) = [some_thread]"
  "cls some_thread = UserClass" "session some_thread = 0" "thread_id some_thread = ''1234''"
  by (simp_all add: one_thread_world_def some_thread_def)

subsection \<open>Claim C2: the identifier of a thread\<close>

lemma str_nat_nonempty: "str_nat n \<noteq> []"
  by (subst str_nat.simps) simp

lemma py_str_scalar:
  "py_str (IdInt k) \<noteq> []" "py_str IdNone \<noteq> []" "py_str (IdBool b) \<noteq> []"
  by (simp_all add: str_int_def str_nat_nonempty)

lemma ids_nonempty_same: "threads w' = threads w \<Longrightarrow> ids_nonempty w' = ids_nonempty w"
  by (simp add: ids_nonempty_def)





subsection \<open>Claim C6: no operation changes a thread\<close>

text \<open>
  Claim C6. No operation of the module changes a thread object: after each of the
  methods below, run on the object at any address, every object of the store is what
  it was, so the receiver's \<open>id\<close> and \<open>session\<close> are. A send method of the class \<open>Thread\<close>
  raises before anything else happens; for the other classes a send method first calls
  the subclass's \<^verbatim>\<open>_to_send_data\<close>, and leaves the store as it is when that code does.
  \<open>create_plan\<close> does nothing but call \<^verbatim>\<open>Plan._create\<close>, and leaves the store as it is when
  that code does. The same holds for a run of \<open>fetch_images\<close> that ends. \<open>fetch_messages\<close>
  leaves the objects that were in the store as they are; when it returns, it has added
  one object at a new address, with the class, the session and the identifier of the
  receiver, and the messages are built from that address. The static methods
  \<open>parse_color\<close>, \<open>parse_customization_info\<close> and \<open>parse_participants\<close> have no receiver.
\<close>

theorem no_mutation_spec:
  "(cls (threads w ! a) = ThreadClass \<or> threads (snd (sub a w)) = threads w \<longrightarrow>
      threads (snd (wave_at sub a first w)) = threads w \<and>
      threads (snd (send_text_at sub mention_data mimetype_to_key a body mentions files
                      reply_to_id w)) = threads w \<and>
      threads (snd (send_emoji_at sub a emoji size_name w)) = threads w \<and>
      threads (snd (send_sticker_at sub a sticker_id w)) = threads w \<and>
      threads (snd (send_location_at sub a latitude longitude w)) = threads w \<and>
      threads (snd (send_pinned_location_at sub a latitude longitude w)) = threads w \<and>
      threads (snd (send_files_at sub mention_data mimetype_to_key a files w)) = threads w) \<and>
   threads (snd (search_messages_at a query offset limit w)) = threads w \<and>
   threads (snd (set_nickname_at a user_id nickname w)) = threads w \<and>
   threads (snd (set_color_at a color w)) = threads w \<and>
   threads (snd (set_emoji_at a emoji w)) = threads w \<and>
   threads (snd (forward_attachment_at a attachment_id otid w)) = threads w \<and>
   threads (snd (start_typing_at a w)) = threads w \<and>
   threads (snd (stop_typing_at a w)) = threads w \<and>
   (threads (snd (plan_create a name at location_name location_id w)) = threads w \<longrightarrow>
      threads (snd (create_plan_at plan_create a name at location_name location_id w)) =
        threads w) \<and>
   threads (snd (create_poll_at a question options w)) = threads w \<and>
   threads (snd (mute_at tts a duration w)) = threads w \<and>
   threads (snd (unmute_at tts a w)) = threads w \<and>
   threads (snd (mute_reactions_at a w)) = threads w \<and>
   threads (snd (unmute_reactions_at a w)) = threads w \<and>
   threads (snd (mute_mentions_at a w)) = threads w \<and>
   threads (snd (unmute_mentions_at a w)) = threads w \<and>
   threads (snd (mark_as_spam_at a w)) = threads w \<and>
   threads (snd (forced_fetch_at a message_id w)) = threads w \<and>
   (fetch_images_at img vid att a w = Some (ys, e, w') \<longrightarrow> threads w' = threads w) \<and>
   take (length (threads w)) (threads (snd (fetch_messages dtm fg a message_limit before w))) =
     threads w \<and>
   (a < length (threads w) \<longrightarrow>
      threads (snd (fetch_messages dtm fg a message_limit before w)) ! a = threads w ! a) \<and>
   (a < length (threads w) \<and> fetch_messages dtm fg a message_limit before w = (Inr xs, w'') \<longrightarrow>
      length (threads w) \<noteq> a \<and>
      length (threads w'') = Suc (length (threads w)) \<and>
      cls (threads w'' ! length (threads w)) = cls (threads w ! a) \<and>
      session (threads w'' ! length (threads w)) = session (threads w ! a) \<and>
      thread_id (threads w'' ! length (threads w)) = thread_id (threads w ! a) \<and>
      (\<exists>read_receipts ms zs.
         messages_from_graphql fg (length (threads w)) read_receipts ms = Inr zs \<and> xs = rev zs))"
proof -
  have sends: "threads (snd (wave_at sub a first w)) = threads w \<and>
      threads (snd (send_text_at sub mention_data mimetype_to_key a body mentions files
                      reply_to_id w)) = threads w \<and>
      threads (snd (send_emoji_at sub a emoji size_name w)) = threads w \<and>
      threads (snd (send_sticker_at sub a sticker_id w)) = threads w \<and>
      threads (snd (send_location_at sub a latitude longitude w)) = threads w \<and>
      threads (snd (send_pinned_location_at sub a latitude longitude w)) = threads w \<and>
      threads (snd (send_files_at sub mention_data mimetype_to_key a files w)) = threads w"
    if h: "cls (threads w ! a) = ThreadClass \<or> threads (snd (sub a w)) = threads w"
    by (simp add:
        wave_at_frame [where sub = sub and a = a and w = w, OF h]
        send_text_at_frame [where sub = sub and a = a and w = w, OF h]
        send_emoji_at_frame [where sub = sub and a = a and w = w, OF h]
        send_sticker_at_frame [where sub = sub and a = a and w = w, OF h]
        send_location_at_frame [where sub = sub and a = a and w = w, OF h]
        send_pinned_location_at_frame [where sub = sub and a = a and w = w, OF h]
        send_files_at_frame [where sub = sub and a = a and w = w, OF h])
  have others: "threads (snd (search_messages_at a query offset limit w)) = threads w \<and>
      threads (snd (set_nickname_at a user_id nickname w)) = threads w \<and>
      threads (snd (set_color_at a color w)) = threads w \<and>
      threads (snd (set_emoji_at a emoji w)) = threads w \<and>
      threads (snd (forward_attachment_at a attachment_id otid w)) = threads w \<and>
      threads (snd (start_typing_at a w)) = threads w \<and>
      threads (snd (stop_typing_at a w)) = threads w \<and>
      threads (snd (create_poll_at a question options w)) = threads w \<and>
      threads (snd (mute_at tts a duration w)) = threads w \<and>
      threads (snd (unmute_at tts a w)) = threads w \<and>
      threads (snd (mute_reactions_at a w)) = threads w \<and>
      threads (snd (unmute_reactions_at a w)) = threads w \<and>
      threads (snd (mute_mentions_at a w)) = threads w \<and>
      threads (snd (unmute_mentions_at a w)) = threads w \<and>
      threads (snd (mark_as_spam_at a w)) = threads w \<and>
      threads (snd (forced_fetch_at a message_id w)) = threads w"
    by (simp add: search_messages_at_frame set_nickname_at_frame
        set_color_at_frame set_emoji_at_frame forward_attachment_at_frame start_typing_at_frame
        stop_typing_at_frame create_poll_at_frame mute_at_frame unmute_at_frame
        mute_reactions_at_frame unmute_reactions_at_frame mute_mentions_at_frame
        unmute_mentions_at_frame mark_as_spam_at_frame forced_fetch_at_frame)
  have plan: "threads (snd (create_plan_at plan_create a name at location_name location_id w)) =
        threads w"
    if "threads (snd (plan_create a name at location_name location_id w)) = threads w"
    using that by (simp add: create_plan_at_def)
  have images: "threads w' = threads w"
    if "fetch_images_at img vid att a w = Some (ys, e, w')"
    using fetch_images_at_frame [OF that] .
  have f0: "take (length (threads w)) (threads (snd (fetch_messages dtm fg a message_limit before w))) =
     threads w"
    by (rule fetch_messages_frame)
  have f1: "threads (snd (fetch_messages dtm fg a message_limit before w)) ! a = threads w ! a"
    if "a < length (threads w)"
    using that fetch_messages_frame [of w dtm fg a message_limit before]
    by (metis nth_take)
  have f2: "length (threads w) \<noteq> a \<and>
      length (threads w'') = Suc (length (threads w)) \<and>
      cls (threads w'' ! length (threads w)) = cls (threads w ! a) \<and>
      session (threads w'' ! length (threads w)) = session (threads w ! a) \<and>
      thread_id (threads w'' ! length (threads w)) = thread_id (threads w ! a) \<and>
      (\<exists>read_receipts ms zs.
         messages_from_graphql fg (length (threads w)) read_receipts ms = Inr zs \<and> xs = rev zs)"
    if h: "a < length (threads w) \<and> fetch_messages dtm fg a message_limit before w = (Inr xs, w'')"
  proof -
    from fetch_messages_fresh [of dtm fg a message_limit before w xs w''] h
    have t: "threads w'' = threads w @ [new_thread (cls (threads w ! a)) (session (threads w ! a))
                                     (thread_id (threads w ! a))]"
      and m: "\<exists>read_receipts ms zs.
         messages_from_graphql fg (length (threads w)) read_receipts ms = Inr zs \<and> xs = rev zs"
      by blast+
    from h t m show ?thesis by (simp add: new_thread_def)
  qed
  from sends others plan images f0 f1 f2 show ?thesis by blast
qed

theorem no_mutation_spec_witness:
  "threads (snd (user_send_data 0 (one_thread_world quiet_net))) =
     threads (one_thread_world quiet_net) \<and>
   threads (snd (wave_at user_send_data 0 True (one_thread_world quiet_net))) = [some_thread] \<and>
   threads (snd (set_color_at 0 ''#44bec7'' (one_thread_world quiet_net))) = [some_thread] \<and>
   threads (snd (named_plan 0 ''lunch'' 0 None None (one_thread_world quiet_net))) =
     threads (one_thread_world quiet_net) \<and>
   threads (snd (create_plan_at named_plan 0 ''lunch'' 0 None None (one_thread_world quiet_net))) =
     [some_thread] \<and>
   (\<exists>ys w'. fetch_images_at (\<lambda>e. Inr (ImageAttachment e)) (\<lambda>e. Inr (VideoAttachment e))
      Attachment 0 (one_thread_world media_net) = Some (ys, None, w') \<and>
      threads w' = [some_thread]) \<and>
   0 < length (threads (one_thread_world (fixed_net two_messages))) \<and>
   (\<exists>w''. fetch_messages (\<lambda>t :: nat. 0) (\<lambda>t m rr. Inr (t, m)) 0 20 None
      (one_thread_world (fixed_net two_messages)) =
        (Inr [(1, PStr ''newer''), (1, PStr ''older'')], w'') \<and>
      threads w'' ! 0 = some_thread \<and> length (threads w'') = 2 \<and>
      cls (threads w'' ! 1) = UserClass \<and> session (threads w'' ! 1) = 0 \<and>
      thread_id (threads w'' ! 1) = ''1234'')"
proof -
  let ?w = "one_thread_world (fixed_net two_messages)"
  let ?img = "\<lambda>e. Inr (ImageAttachment e) :: error + sample_attachment"
  let ?vid = "\<lambda>e. Inr (VideoAttachment e) :: error + sample_attachment"
  have l: "0 < length (threads ?w)" "length (threads ?w) = 1" "threads ?w ! 0 = some_thread"
    by (simp_all add: one_thread_world_def)
  have u: "threads (snd (user_send_data 0 (one_thread_world quiet_net))) =
      threads (one_thread_world quiet_net)"
    by (simp add: user_send_data_def)
  have p: "threads (snd (named_plan 0 ''lunch'' 0 None None (one_thread_world quiet_net))) =
      threads (one_thread_world quiet_net)"
    by (simp add: named_plan_def)
  from sample_images_at obtain ys w' where
    g: "fetch_images_at ?img ?vid Attachment 0 (one_thread_world media_net) = Some (ys, None, w')"
    by blast
  from sample_fetch_messages obtain w'' where
    m: "fetch_messages (\<lambda>t :: nat. 0) (\<lambda>t m rr. Inr (t, m)) 0 20 None ?w =
          (Inr [(1, PStr ''newer''), (1, PStr ''older'')], w'')" by blast
  note T1 = no_mutation_spec [where a = 0 and w = "one_thread_world quiet_net"
      and sub = user_send_data and first = True and color = "''#44bec7''"
      and plan_create = named_plan and name = "''lunch''" and at = 0 and location_name = None
      and location_id = None]
  note T3 = no_mutation_spec [where a = 0 and w = ?w and dtm = "\<lambda>t :: nat. 0"
      and fg = "\<lambda>t m rr. Inr (t, m)" and message_limit = 20 and before = None
      and xs = "[(1, PStr ''newer''), (1, PStr ''older'')]" and w'' = w'']
  from T1 [THEN conjunct1, THEN mp, OF disjI2, OF u, THEN conjunct1]
  have a1: "threads (snd (wave_at user_send_data 0 True (one_thread_world quiet_net))) =
      threads (one_thread_world quiet_net)" .
  from T1 [THEN conjunct2, THEN conjunct2, THEN conjunct2, THEN conjunct1]
  have a2: "threads (snd (set_color_at 0 ''#44bec7'' (one_thread_world quiet_net))) =
      threads (one_thread_world quiet_net)" .
  from T1 [THEN conjunct2, THEN conjunct2, THEN conjunct2, THEN conjunct2, THEN conjunct2, THEN conjunct2, THEN conjunct2, THEN conjunct2, THEN conjunct1, THEN mp, OF p]
  have a3: "threads (snd (create_plan_at named_plan 0 ''lunch'' 0 None None
      (one_thread_world quiet_net))) = threads (one_thread_world quiet_net)" .
  from no_mutation_spec [where a = 0 and w = "one_thread_world media_net"
      and img = ?img and vid = ?vid and att = Attachment and ys = ys and e = None and w' = w',
      THEN conjunct2, THEN conjunct2, THEN conjunct2, THEN conjunct2, THEN conjunct2, THEN conjunct2, THEN conjunct2, THEN conjunct2, THEN conjunct2, THEN conjunct2, THEN conjunct2, THEN conjunct2, THEN conjunct2, THEN conjunct2, THEN conjunct2, THEN conjunct2, THEN conjunct2, THEN conjunct2, THEN conjunct1, THEN mp, OF g]
  have b: "threads w' = threads (one_thread_world media_net)" .
  from T3 [THEN conjunct2, THEN conjunct2, THEN conjunct2, THEN conjunct2, THEN conjunct2, THEN conjunct2, THEN conjunct2, THEN conjunct2, THEN conjunct2, THEN conjunct2, THEN conjunct2, THEN conjunct2, THEN conjunct2, THEN conjunct2, THEN conjunct2, THEN conjunct2, THEN conjunct2, THEN conjunct2, THEN conjunct2, THEN conjunct2, THEN conjunct1, THEN mp, OF l(1)]
  have c1: "threads (snd (fetch_messages (\<lambda>t :: nat. 0) (\<lambda>t m rr. Inr (t, m)) 0 20
      None ?w)) ! 0 = threads ?w ! 0" .
  from T3 [THEN conjunct2, THEN conjunct2, THEN conjunct2, THEN conjunct2, THEN conjunct2, THEN conjunct2, THEN conjunct2, THEN conjunct2, THEN conjunct2, THEN conjunct2, THEN conjunct2, THEN conjunct2, THEN conjunct2, THEN conjunct2, THEN conjunct2, THEN conjunct2, THEN conjunct2, THEN conjunct2, THEN conjunct2, THEN conjunct2, THEN conjunct2, THEN mp, OF conjI [OF l(1) m]]
  have c2: "length (threads w'') = Suc (length (threads ?w)) \<and>
      cls (threads w'' ! length (threads ?w)) = cls (threads ?w ! 0) \<and>
      session (threads w'' ! length (threads ?w)) = session (threads ?w ! 0) \<and>
      thread_id (threads w'' ! length (threads ?w)) = thread_id (threads ?w ! 0)"
    by blast
  from c1 m l have d1: "threads w'' ! 0 = some_thread" by simp
  from c2 l have d2: "length (threads w'') = 2 \<and>
      cls (threads w'' ! 1) = UserClass \<and> session (threads w'' ! 1) = 0 \<and>
      thread_id (threads w'' ! 1) = ''1234''" by (simp add: sample_store)
  from a1 a2 a3 b have e: "threads (snd (wave_at user_send_data 0 True (one_thread_world quiet_net))) =
      [some_thread]"
    "threads (snd (set_color_at 0 ''#44bec7'' (one_thread_world quiet_net))) = [some_thread]"
    "threads (snd (create_plan_at named_plan 0 ''lunch'' 0 None None (one_thread_world quiet_net))) =
      [some_thread]"
    "threads w' = [some_thread]"
    by (simp_all add: sample_store)
  from u p e g l(1) m d1 d2 show ?thesis by blast
qed

end
